theory Spec2Isabelle
  imports Main
begin

section \<open>Strings\<close>

text \<open>
  JavaScript strings are modelled as \<^typ>\<open>string\<close>, one character for one UTF-16 code
  unit. The characters below 256 stand for themselves, with one exception: the scripts write
  the em dash U+2014 for a missing company, and \<^verbatim>\<open>CHR 0x97\<close> stands for it (the control
  character U+0097 does not occur in a digest). The middle dot U+00B7, the separator of a
  digest label, is in range. Texts with other characters (the Russian headings of the
  digests) are arguments of the functions that write them. Every pattern the scripts match
  is ASCII, so the functions below read and count the same characters the scripts do.
\<close>

definition em_dash :: string where
  "em_dash = [CHR 0x97]"

definition middle_dot :: string where
  "middle_dot = [CHR 0xB7]"

definition is_digit :: "char \<Rightarrow> bool" where
  "is_digit c = (c \<in> set ''0123456789'')"

text \<open>JavaScript truthiness of a string and of a string that may be \<^verbatim>\<open>null\<close>.\<close>

definition truthy :: "string \<Rightarrow> bool" where
  "truthy s = (s \<noteq> [])"

definition truthy_opt :: "string option \<Rightarrow> bool" where
  "truthy_opt x = (case x of None \<Rightarrow> False | Some s \<Rightarrow> s \<noteq> [])"

text \<open>\<^verbatim>\<open>s.includes(w)\<close>.\<close>

fun str_includes :: "string \<Rightarrow> string \<Rightarrow> bool" where
  "str_includes [] w = (w = [])"
| "str_includes (c # cs) w = (take (length w) (c # cs) = w \<or> str_includes cs w)"

text \<open>\<^verbatim>\<open>s.startsWith(w)\<close> and \<^verbatim>\<open>s.endsWith(w)\<close>.\<close>

definition startsWith :: "string \<Rightarrow> string \<Rightarrow> bool" where
  "startsWith s w = (take (length w) s = w)"

definition endsWith :: "string \<Rightarrow> string \<Rightarrow> bool" where
  "endsWith s w = (length w \<le> length s \<and> drop (length s - length w) s = w)"

text \<open>
  The characters of \<^verbatim>\<open>\s\<close> below 256 (the no-break space U+00A0 is one of them);
  \<^verbatim>\<open>replace(/\s+/g, ' ')\<close>; \<^verbatim>\<open>trim()\<close>, which removes the same characters, and
  \<^verbatim>\<open>trimEnd()\<close>.
\<close>

definition is_space :: "char \<Rightarrow> bool" where
  "is_space c = (c \<in> set [CHR 0x20, CHR 0x09, CHR 0x0A, CHR 0x0B, CHR 0x0C, CHR 0x0D, CHR 0xA0])"

fun collapse_from :: "bool \<Rightarrow> string \<Rightarrow> string" where
  "collapse_from inRun [] = []"
| "collapse_from inRun (c # cs) =
     (if is_space c then (if inRun then collapse_from True cs else CHR 0x20 # collapse_from True cs)
      else c # collapse_from False cs)"

definition collapse_ws :: "string \<Rightarrow> string" where
  "collapse_ws s = collapse_from False s"

definition trim :: "string \<Rightarrow> string" where
  "trim s = rev (dropWhile is_space (rev (dropWhile is_space s)))"

definition trimEnd :: "string \<Rightarrow> string" where
  "trimEnd s = rev (dropWhile is_space (rev s))"

text \<open>
  \<^verbatim>\<open>toLowerCase()\<close> and \<^verbatim>\<open>toUpperCase()\<close> of one character below 256, read from
  the bits of its code (\<open>b0\<close> the lowest). The upper-case letters are U+0041 to U+005A
  and U+00C0 to U+00DE without the multiplication sign U+00D7; the lower-case form is 32
  places on, which sets bit 5. The upper-case forms of U+00B5, U+00DF and U+00FF are not
  below 256; no text the scripts capitalise begins with one of them.
\<close>

definition low5_letter :: "bool \<Rightarrow> bool \<Rightarrow> bool \<Rightarrow> bool \<Rightarrow> bool \<Rightarrow> bool" where
  "low5_letter b0 b1 b2 b3 b4 = ((b0 \<or> b1 \<or> b2 \<or> b3 \<or> b4) \<and> \<not> (b4 \<and> b3 \<and> (b2 \<or> (b1 \<and> b0))))"

definition low5_latin1 :: "bool \<Rightarrow> bool \<Rightarrow> bool \<Rightarrow> bool \<Rightarrow> bool \<Rightarrow> bool" where
  "low5_latin1 b0 b1 b2 b3 b4 = (\<not> (b4 \<and> b2 \<and> b1 \<and> b0))"

fun is_upper :: "char \<Rightarrow> bool" where
  "is_upper (Char b0 b1 b2 b3 b4 b5 b6 b7) =
     (b6 \<and> \<not> b5 \<and> (if b7 then low5_latin1 b0 b1 b2 b3 b4 else low5_letter b0 b1 b2 b3 b4))"

fun is_lower :: "char \<Rightarrow> bool" where
  "is_lower (Char b0 b1 b2 b3 b4 b5 b6 b7) =
     (b6 \<and> b5 \<and> (if b7 then low5_latin1 b0 b1 b2 b3 b4 else low5_letter b0 b1 b2 b3 b4))"

fun to_lower :: "char \<Rightarrow> char" where
  "to_lower (Char b0 b1 b2 b3 b4 b5 b6 b7) =
     (if is_upper (Char b0 b1 b2 b3 b4 b5 b6 b7) then Char b0 b1 b2 b3 b4 True b6 b7
      else Char b0 b1 b2 b3 b4 b5 b6 b7)"

fun to_upper :: "char \<Rightarrow> char" where
  "to_upper (Char b0 b1 b2 b3 b4 b5 b6 b7) =
     (if is_lower (Char b0 b1 b2 b3 b4 b5 b6 b7) then Char b0 b1 b2 b3 b4 False b6 b7
      else Char b0 b1 b2 b3 b4 b5 b6 b7)"

definition toLowerCase :: "string \<Rightarrow> string" where
  "toLowerCase s = map to_lower s"

text \<open>\<^verbatim>\<open>s.split(sep)\<close> for a non-empty separator, and \<^verbatim>\<open>parts.join(sep)\<close>.\<close>

fun split_from :: "string \<Rightarrow> nat \<Rightarrow> string \<Rightarrow> string \<Rightarrow> string list" where
  "split_from sep skip cur [] = [rev cur]"
| "split_from sep (Suc k) cur (c # cs) = split_from sep k cur cs"
| "split_from sep 0 cur (c # cs) =
     (if sep \<noteq> [] \<and> take (length sep) (c # cs) = sep
      then rev cur # split_from sep (length sep - 1) [] cs
      else split_from sep 0 (c # cur) cs)"

definition str_split :: "string \<Rightarrow> string \<Rightarrow> string list" where
  "str_split sep s = split_from sep 0 [] s"

fun str_join :: "string \<Rightarrow> string list \<Rightarrow> string" where
  "str_join sep [] = []"
| "str_join sep [x] = x"
| "str_join sep (x # y # ys) = x @ sep @ str_join sep (y # ys)"

text \<open>A number in a template literal: its decimal digits.\<close>

fun digits_of :: "nat \<Rightarrow> nat \<Rightarrow> string" where
  "digits_of 0 n = []"
| "digits_of (Suc fuel) n =
     (if n < 10 then [char_of (48 + n)] else digits_of fuel (n div 10) @ [char_of (48 + n mod 10)])"

definition show_nat :: "nat \<Rightarrow> string" where
  "show_nat n = digits_of (Suc n) n"

section \<open>Regular expressions\<close>

text \<open>
  The regular expressions of the scripts, as a syntax tree and a backtracking matcher that
  tries the alternatives in the order of JavaScript: the left branch of \<^verbatim>\<open>|\<close> first, one
  more round of \<^verbatim>\<open>*\<close> before none (\<open>LazyStar\<close>, for \<^verbatim>\<open>*?\<close>, the other way round). A round
  of a star that consumes nothing is refused, as in JavaScript. A state of the matcher is
  the character before the position (for \<^verbatim>\<open>\b\<close> and \<^verbatim>\<open>^\<close>), the input still to read, and
  the captures made so far, the latest first.
\<close>

datatype rx =
    Sym "char \<Rightarrow> bool"
  | Eps
  | Cat rx rx
  | Alt rx rx
  | Star rx
  | LazyStar rx
  | Grp nat rx
  | WordB
  | Bol
  | Eol
  | BolM
  | EolM

type_synonym rx_state = "char option \<times> string \<times> (nat \<times> string) list"

text \<open>
  The characters of \<^verbatim>\<open>\w\<close>, from the bits of the code: a digit (U+0030 to U+0039), an
  ASCII letter, or the underscore U+005F.
\<close>

fun is_word :: "char \<Rightarrow> bool" where
  "is_word (Char b0 b1 b2 b3 b4 b5 b6 b7) =
     (\<not> b7 \<and> (if b6 then low5_letter b0 b1 b2 b3 b4 \<or> (\<not> b5 \<and> b4 \<and> b3 \<and> b2 \<and> b1 \<and> b0)
                 else b5 \<and> b4 \<and> (\<not> b3 \<or> (\<not> b2 \<and> \<not> b1))))"

definition is_line_end :: "char \<Rightarrow> bool" where
  "is_line_end c = (c = CHR 0x0A \<or> c = CHR 0x0D)"

definition word_before :: "char option \<Rightarrow> bool" where
  "word_before p = (case p of None \<Rightarrow> False | Some c \<Rightarrow> is_word c)"

definition word_after :: "string \<Rightarrow> bool" where
  "word_after r = (case r of [] \<Rightarrow> False | c # cs \<Rightarrow> is_word c)"

text \<open>
  \<open>run r fuel st\<close>: the states after a match of \<open>r\<close> that starts in \<open>st\<close>, the preferred
  one first. The fuel bounds the rounds of a star; a round consumes a character, so fuel
  above the length of the input never runs out.
\<close>

fun run :: "rx \<Rightarrow> nat \<Rightarrow> rx_state \<Rightarrow> rx_state list" where
  "run (Sym P) n (p, [], cs) = []"
| "run (Sym P) n (p, c # r, cs) = (if P c then [(Some c, r, cs)] else [])"
| "run Eps n st = [st]"
| "run (Cat a b) n st = concat (map (run b n) (run a n st))"
| "run (Alt a b) n st = run a n st @ run b n st"
| "run (Star a) 0 st = [st]"
| "run (Star a) (Suc n) (p, r, cs) =
     concat (map (run (Star a) n)
       (filter (\<lambda>(p', r', cs'). length r' < length r) (run a (Suc n) (p, r, cs))))
     @ [(p, r, cs)]"
| "run (LazyStar a) 0 st = [st]"
| "run (LazyStar a) (Suc n) (p, r, cs) =
     (p, r, cs) #
     concat (map (run (LazyStar a) n)
       (filter (\<lambda>(p', r', cs'). length r' < length r) (run a (Suc n) (p, r, cs))))"
| "run (Grp i a) n (p, r, cs) =
     map (\<lambda>(p', r', cs'). (p', r', (i, take (length r - length r') r) # cs')) (run a n (p, r, cs))"
| "run WordB n (p, r, cs) = (if word_before p \<noteq> word_after r then [(p, r, cs)] else [])"
| "run Bol n (p, r, cs) = (if p = None then [(p, r, cs)] else [])"
| "run Eol n (p, r, cs) = (if r = [] then [(p, r, cs)] else [])"
| "run BolM n (p, r, cs) =
     (if (case p of None \<Rightarrow> True | Some c \<Rightarrow> is_line_end c) then [(p, r, cs)] else [])"
| "run EolM n (p, r, cs) =
     (if (case r of [] \<Rightarrow> True | c # x \<Rightarrow> is_line_end c) then [(p, r, cs)] else [])"

text \<open>
  A match: the text before it, the matched text, the text after it, and the captures.
  \<open>match_at\<close> tries one position; \<open>rx_search\<close> is \<^verbatim>\<open>s.match(re)\<close> without the g flag,
  the leftmost position that matches.
\<close>

record rx_match =
  m_before :: string
  m_text :: string
  m_after :: string
  m_groups :: "(nat \<times> string) list"

definition match_at :: "rx \<Rightarrow> char option \<Rightarrow> string \<Rightarrow> (string \<times> string \<times> (nat \<times> string) list) option" where
  "match_at r p s =
     (case run r (Suc (length s)) (p, s, []) of
        [] \<Rightarrow> None
      | (p', rest, cs) # xs \<Rightarrow> Some (take (length s - length rest) s, rest, cs))"

fun search_from :: "rx \<Rightarrow> string \<Rightarrow> char option \<Rightarrow> string \<Rightarrow> rx_match option" where
  "search_from r pre p [] =
     (case match_at r p [] of
        Some (t, rest, cs) \<Rightarrow> Some \<lparr>m_before = rev pre, m_text = t, m_after = rest, m_groups = cs\<rparr>
      | None \<Rightarrow> None)"
| "search_from r pre p (c # s) =
     (case match_at r p (c # s) of
        Some (t, rest, cs) \<Rightarrow> Some \<lparr>m_before = rev pre, m_text = t, m_after = rest, m_groups = cs\<rparr>
      | None \<Rightarrow> search_from r (c # pre) (Some c) s)"

definition rx_search :: "rx \<Rightarrow> string \<Rightarrow> rx_match option" where
  "rx_search r s = search_from r [] None s"

text \<open>\<^verbatim>\<open>re.test(s)\<close>; a capture (\<^verbatim>\<open>undefined\<close> is \<open>None\<close>); \<^verbatim>\<open>s.replace(re, f)\<close> without g.\<close>

definition rx_test :: "rx \<Rightarrow> string \<Rightarrow> bool" where
  "rx_test r s = (rx_search r s \<noteq> None)"

definition rx_group :: "rx_match \<Rightarrow> nat \<Rightarrow> string option" where
  "rx_group m i = map_of (m_groups m) i"

definition replace_first :: "rx \<Rightarrow> (rx_match \<Rightarrow> string) \<Rightarrow> string \<Rightarrow> string" where
  "replace_first r f s =
     (case rx_search r s of None \<Rightarrow> s | Some m \<Rightarrow> m_before m @ f m @ m_after m)"

text \<open>
  The matches of a pattern with the g flag, as a \<^verbatim>\<open>while ((m = re.exec(s)) !== null)\<close>
  loop or \<^verbatim>\<open>replace\<close> finds them: after a match the search goes on behind it (\<open>skip\<close>
  counts the characters of the last match still to pass). None of the patterns used with
  the g flag matches the empty string.
\<close>

fun matches_from :: "rx \<Rightarrow> nat \<Rightarrow> string \<Rightarrow> char option \<Rightarrow> string \<Rightarrow> rx_match list" where
  "matches_from r skip pre p [] = []"
| "matches_from r (Suc k) pre p (c # s) = matches_from r k pre (Some c) s"
| "matches_from r 0 pre p (c # s) =
     (case match_at r p (c # s) of
        Some (t, rest, cs) \<Rightarrow>
          \<lparr>m_before = rev pre, m_text = t, m_after = rest, m_groups = cs\<rparr>
            # matches_from r (length t - 1) (if t = [] then [c] else []) (Some c) s
      | None \<Rightarrow> matches_from r 0 (c # pre) (Some c) s)"

definition matches :: "rx \<Rightarrow> string \<Rightarrow> rx_match list" where
  "matches r s = matches_from r 0 [] None s"

definition replace_all :: "rx \<Rightarrow> string \<Rightarrow> string \<Rightarrow> string" where
  "replace_all r w s =
     (case matches r s of
        [] \<Rightarrow> s
      | ms \<Rightarrow> concat (map (\<lambda>m. m_before m @ w) ms) @ m_after (last ms))"

text \<open>The building blocks of the patterns.\<close>

definition ch :: "char \<Rightarrow> rx" where
  "ch c = Sym (\<lambda>x. x = c)"

definition ch_i :: "char \<Rightarrow> rx" where
  "ch_i c = Sym (\<lambda>x. to_lower x = to_lower c)"

definition one_of :: "string \<Rightarrow> rx" where
  "one_of cs = Sym (\<lambda>x. x \<in> set cs)"

definition none_of :: "string \<Rightarrow> rx" where
  "none_of cs = Sym (\<lambda>x. x \<notin> set cs)"

definition any_char :: rx where
  "any_char = Sym (\<lambda>x. True)"

definition ws :: rx where
  "ws = Sym is_space"

definition digit :: rx where
  "digit = Sym is_digit"

fun seqs :: "rx list \<Rightarrow> rx" where
  "seqs [] = Eps"
| "seqs [r] = r"
| "seqs (r # s # rs) = Cat r (seqs (s # rs))"

fun alts :: "rx list \<Rightarrow> rx" where
  "alts [] = Sym (\<lambda>x. False)"
| "alts [r] = r"
| "alts (r # s # rs) = Alt r (alts (s # rs))"

definition lit :: "string \<Rightarrow> rx" where
  "lit s = seqs (map ch s)"

definition lit_i :: "string \<Rightarrow> rx" where
  "lit_i s = seqs (map ch_i s)"

definition many1 :: "rx \<Rightarrow> rx" where
  "many1 r = Cat r (Star r)"

definition maybe :: "rx \<Rightarrow> rx" where
  "maybe r = Alt r Eps"

fun upto :: "nat \<Rightarrow> rx \<Rightarrow> rx" where
  "upto 0 r = Eps"
| "upto (Suc n) r = Alt (Cat r (upto n r)) Eps"

section \<open>Job identity and the digest line grammar\<close>

text \<open>
  \<^verbatim>\<open>getJobId(url)\<close>: the first match of \<^verbatim>\<open>/\/jobs\/view\/(\d+)/\<close>, that is the first
  place where \<^verbatim>\<open>/jobs/view/\<close> is followed by a digit; the capture is the whole run of
  digits. No match is \<^verbatim>\<open>null\<close>.
\<close>

fun getJobId :: "string \<Rightarrow> string option" where
  "getJobId [] = None"
| "getJobId (c # cs) =
     (let ds = takeWhile is_digit (drop 11 (c # cs))
      in if take 11 (c # cs) = ''/jobs/view/'' \<and> ds \<noteq> [] then Some ds else getJobId cs)"

section \<open>Digest documents and the exclusion set\<close>

text \<open>
  One attempt of
  \<^verbatim>\<open>/^- \[(x|-)\] \[[^\]]*\]\((https?:[^)]+)\)/gm\<close>
  at a line start. The result is the captured URL and the length of the whole match.
  The two starred classes stop at the first \<^verbatim>\<open>]\<close> and the first \<^verbatim>\<open>)\<close>, which is
  also the only way the characters after them can match, so no backtracking is lost.
\<close>

definition matchMarked :: "string \<Rightarrow> (string \<times> nat) option" where
  "matchMarked s =
     (if take 3 s = ''- ['' \<and> (take 1 (drop 3 s) = ''x'' \<or> take 1 (drop 3 s) = ''-'')
         \<and> take 3 (drop 4 s) = ''] [''
      then
        let label = takeWhile (\<lambda>c. c \<noteq> CHR '']'') (drop 7 s);
            r = drop (7 + length label) s
        in if take 2 r = '']('' then
             let r2 = drop 2 r;
                 p = (if take 6 r2 = ''https:'' then 6 else if take 5 r2 = ''http:'' then 5 else 0);
                 body = takeWhile (\<lambda>c. c \<noteq> CHR '')'') (drop p r2)
             in if p \<noteq> 0 \<and> body \<noteq> [] \<and> take 1 (drop (p + length body) r2) = '')''
                then Some (take p r2 @ body, 7 + length label + 2 + p + length body + 1)
                else None
           else None
      else None)"

text \<open>
  The \<^verbatim>\<open>while ((m = re.exec(content)) !== null)\<close> loop: \<open>skip\<close> counts the characters
  of the last match still to pass, \<open>atStart\<close> says whether \<^verbatim>\<open>^\<close> matches here.
\<close>

fun scanMarked :: "nat \<Rightarrow> bool \<Rightarrow> string \<Rightarrow> string list" where
  "scanMarked skip atStart [] = []"
| "scanMarked (Suc k) atStart (c # cs) = scanMarked k (is_line_end c) cs"
| "scanMarked 0 atStart (c # cs) =
     (case (if atStart then matchMarked (c # cs) else None) of
        Some (u, n) \<Rightarrow> u # scanMarked (n - 1) (is_line_end c) cs
      | None \<Rightarrow> scanMarked 0 (is_line_end c) cs)"

definition markedUrls :: "string \<Rightarrow> string list" where
  "markedUrls content = scanMarked 0 True content"

text \<open>
  \<^verbatim>\<open>getExcludedJobIdsFromPreviousDigests()\<close>. The digest directory is a list of
  (file name, content); only \<^verbatim>\<open>linkedin-jobs-*.md\<close> files are read, and only URLs with
  a job id add to the set.
\<close>

definition getExcludedJobIdsFromPreviousDigests :: "(string \<times> string) list \<Rightarrow> string list" where
  "getExcludedJobIdsFromPreviousDigests dir =
     concat (map (\<lambda>(f, content). List.map_filter getJobId (markedUrls content))
       (filter (\<lambda>(f, content). startsWith f ''linkedin-jobs-'' \<and> endsWith f ''.md'') dir))"

text \<open>\<^verbatim>\<open>excludedIds.has(getJobId(j.url))\<close>: \<^verbatim>\<open>null\<close> is never in the set.\<close>

definition has_id :: "string list \<Rightarrow> string option \<Rightarrow> bool" where
  "has_id ids i = (case i of None \<Rightarrow> False | Some x \<Rightarrow> x \<in> set ids)"

section \<open>The email-parser path (parse-linkedin-job-emails, \<^verbatim>\<open>main\<close>)\<close>

record job =
  j_url :: string
  j_title :: string
  j_company :: string
  j_workType :: string

text \<open>
  The part of \<^verbatim>\<open>main\<close> after the mailbox loop: keep real postings, sort by score
  (descending, stable), drop the ids of the exclusion set, split into the two sections.
  \<^verbatim>\<open>scoreJob\<close> only orders and partitions the jobs; the selection is stated for any
  scoring function.
\<close>

definition withScore :: "(job \<Rightarrow> int) \<Rightarrow> (string \<times> string) list \<Rightarrow> job list \<Rightarrow> job list" where
  "withScore score dir results =
     (let ws = sort_key (\<lambda>j. - score j) (filter (\<lambda>j. str_includes (j_url j) ''/jobs/view/'') results);
          excludedIds = getExcludedJobIdsFromPreviousDigests dir
      in filter (\<lambda>j. \<not> has_id excludedIds (getJobId (j_url j))) ws)"

definition best :: "(job \<Rightarrow> int) \<Rightarrow> (string \<times> string) list \<Rightarrow> job list \<Rightarrow> job list" where
  "best score dir results = filter (\<lambda>j. score j \<ge> 5) (withScore score dir results)"

definition other :: "(job \<Rightarrow> int) \<Rightarrow> (string \<times> string) list \<Rightarrow> job list \<Rightarrow> job list" where
  "other score dir results = filter (\<lambda>j. score j < 5) (withScore score dir results)"

text \<open>
  \<^verbatim>\<open>fmt\<close>, the job line of the digest (without the summary that another step adds
  below it). Only \<^verbatim>\<open>|\<close> is replaced in the title and the company.
\<close>

definition capitalize :: "string \<Rightarrow> string" where
  "capitalize s = (case s of [] \<Rightarrow> [] | c # cs \<Rightarrow> (if is_line_end c then c # cs else to_upper c # cs))"

definition no_pipes :: "string \<Rightarrow> string" where
  "no_pipes s = map (\<lambda>c. if c = CHR ''|'' then CHR 0x20 else c) s"

definition fmt :: "job \<Rightarrow> string" where
  "fmt j =
     (let title = no_pipes (if j_title j \<noteq> [] \<and> length (j_title j) < 120 then j_title j else ''View job'');
          company = no_pipes (if j_company j \<noteq> [] then j_company j else em_dash);
          type = capitalize (if j_workType j \<noteq> [] then j_workType j else ''unknown'')
      in ''- [ ] ['' @ title @ '' '' @ middle_dot @ '' '' @ company @ '' '' @ middle_dot @ '' '' @ type
           @ '']('' @ j_url j @ '')'')"

section \<open>The RSS path (fetch-remote-pm-rss, \<^verbatim>\<open>main\<close>)\<close>

text \<open>
  The run with the RSS feeds (argument \<^verbatim>\<open>--rss\<close>: every feed of \<^verbatim>\<open>RSS_SOURCES\<close>, no
  Foorilla scrape). A feed is given by the items read from it, \<^verbatim>\<open>{ title, link }\<close>; a
  feed that fails has none.
\<close>

record rss_item =
  r_title :: string
  r_link :: string

record rss_job =
  rj_title :: string
  rj_url :: string

definition RSS_SOURCES :: "string list" where
  "RSS_SOURCES = [''Remotive Product'', ''Remotive PM'', ''WWR'', ''RemoteOK'',
                  ''JobsCollider Product'', ''JobsCollider PM'']"

definition sanitizeTitleForMarkdown :: "string \<Rightarrow> string" where
  "sanitizeTitleForMarkdown title = take 120 (trim (collapse_ws (no_pipes title)))"

definition PM_TITLE_INCLUDE :: "string list" where
  "PM_TITLE_INCLUDE =
     [''product manager'', ''product lead'', ''head of product'', ''cpo'', ''chief product officer'',
      ''product owner'', ''product director'', ''product head'', ''growth product'',
      ''technical product manager'', ''senior product manager'', ''lead product manager'',
      ''principal product manager'', ''product specialist'', ''director of product'', ''vp product'',
      ''vice president product'', ''product management'']"

definition PM_TITLE_EXCLUDE :: "string list" where
  "PM_TITLE_EXCLUDE =
     [''account executive'', ''sales manager'', ''sales representative'', ''business development'',
      ''support engineer'', ''customer support'', ''client support'', ''tier 1 support'',
      ''tier 2 support'', ''wordpress developer'', ''software engineer'', ''developer'', ''devsecops'',
      ''devops'', ''qa analyst'', ''quality assurance'', ''werkstudent'', ''intern '', '' intern'',
      ''product engineer'', ''product developer'']"

definition isProductRole :: "string \<Rightarrow> bool" where
  "isProductRole title =
     (let t = toLowerCase title
      in (\<exists>kw \<in> set PM_TITLE_INCLUDE. str_includes t kw)
         \<and> \<not> (\<exists>kw \<in> set PM_TITLE_EXCLUDE. str_includes t kw))"

text \<open>
  The loop over the items of one feed: \<^verbatim>\<open>seenUrls\<close> is shared by all feeds; the result
  is the new \<^verbatim>\<open>seenUrls\<close> and the jobs pushed to \<^verbatim>\<open>byFeed.get(feedId)\<close>.
\<close>

fun feedJobs :: "string list \<Rightarrow> rss_item list \<Rightarrow> string list \<times> rss_job list" where
  "feedJobs seenUrls [] = (seenUrls, [])"
| "feedJobs seenUrls (item # items) =
     (let url = trim (r_link item)
      in if url = [] \<or> url \<in> set seenUrls then feedJobs seenUrls items
         else if \<not> isProductRole (r_title item) then feedJobs seenUrls items
         else (let r = feedJobs (url # seenUrls) items
               in (fst r, \<lparr>rj_title = sanitizeTitleForMarkdown (r_title item), rj_url = url\<rparr> # snd r)))"

fun byFeed :: "(string \<Rightarrow> rss_item list) \<Rightarrow> string list \<Rightarrow> string list \<Rightarrow> (string \<times> rss_job list) list" where
  "byFeed fetched seenUrls [] = []"
| "byFeed fetched seenUrls (feedId # sources) =
     (let r = feedJobs seenUrls (fetched feedId)
      in (feedId, snd r) # byFeed fetched (fst r) sources)"

text \<open>The lines of the section: a heading for every feed with jobs, then its job lines.\<close>

definition rssLine :: "string \<Rightarrow> rss_job \<Rightarrow> string" where
  "rssLine feedId entry =
     (let display = (if rj_title entry \<noteq> [] then rj_title entry @ '' '' @ middle_dot @ '' '' @ feedId
                     else feedId)
      in ''- [ ] ['' @ display @ '']('' @ rj_url entry @ '')'')"

definition rssJobLines :: "(string \<times> rss_job list) list \<Rightarrow> string list" where
  "rssJobLines feeds =
     concat (map (\<lambda>(feedId, list).
        if list = [] then []
        else ([CHR 0x0A] @ ''### '' @ feedId @ '' ('' @ show_nat (length list) @ '')'' @ [CHR 0x0A])
               # map (rssLine feedId) list) feeds)"

definition feedStats :: "(string \<times> rss_job list) list \<Rightarrow> string list" where
  "feedStats feeds = map (\<lambda>(feedId, list). feedId @ '': '' @ show_nat (length list)) feeds"

text \<open>
  The section appended to the digest of the day. \<open>sectionIntro\<close> and \<open>statsLabel\<close> are
  the two Russian texts of the script (the introduction line, and the label in front of the
  counts).
\<close>

definition rssBlock :: "string \<Rightarrow> string \<Rightarrow> (string \<times> rss_job list) list \<Rightarrow> string" where
  "rssBlock sectionIntro statsLabel feeds =
     (let jobLines = rssJobLines feeds;
          statsLine = statsLabel @ '' '' @ str_join '' | '' (feedStats feeds) @ [CHR 0x0A, CHR 0x0A]
      in [CHR 0x0A, CHR 0x0A] @ ''## Remote job boards (RSS)'' @ [CHR 0x0A, CHR 0x0A]
         @ sectionIntro @ statsLine @ str_join [CHR 0x0A, CHR 0x0A] jobLines
         @ (if jobLines \<noteq> [] then [CHR 0x0A] else []))"

text \<open>
  The digest directory is a list of (file name, content). \<^verbatim>\<open>writeFileSync\<close> replaces
  the content of a file or adds the file.
\<close>

definition readFile :: "(string \<times> string) list \<Rightarrow> string \<Rightarrow> string option" where
  "readFile dir name = map_of dir name"

definition writeFile :: "string \<Rightarrow> string \<Rightarrow> (string \<times> string) list \<Rightarrow> (string \<times> string) list" where
  "writeFile name content dir =
     (if name \<in> fst ` set dir then map (\<lambda>(f, c). if f = name then (f, content) else (f, c)) dir
      else dir @ [(name, content)])"

text \<open>
  \<^verbatim>\<open>main\<close> without \<^verbatim>\<open>--dry-run\<close> and \<^verbatim>\<open>--no-merge\<close>: the feed-only file
  \<^verbatim>\<open>remote-pm-rss-<today>.md\<close>, then the merge into \<^verbatim>\<open>linkedin-jobs-<today>.md\<close>
  (lines 444 to 457). No digest of an earlier day is read.
\<close>

definition rssMain :: "string \<Rightarrow> string \<Rightarrow> string \<Rightarrow> (string \<Rightarrow> rss_item list) \<Rightarrow> (string \<times> string) list \<Rightarrow> (string \<times> string) list" where
  "rssMain today sectionIntro statsLabel fetched dir =
     (let feeds = byFeed fetched [] RSS_SOURCES;
          jobLines = rssJobLines feeds;
          statsLine = statsLabel @ '' '' @ str_join '' | '' (feedStats feeds) @ [CHR 0x0A, CHR 0x0A];
          block = rssBlock sectionIntro statsLabel feeds;
          rssOnlyContent = sectionIntro @ statsLine @ trim (str_join [CHR 0x0A, CHR 0x0A] jobLines) @ [CHR 0x0A];
          dir1 = writeFile (''remote-pm-rss-'' @ today @ ''.md'') rssOnlyContent dir;
          mainDigest = ''linkedin-jobs-'' @ today @ ''.md'';
          mainContent = (case readFile dir1 mainDigest of
                           Some c \<Rightarrow> c
                         | None \<Rightarrow> ''# Job digest '' @ em_dash @ '' '' @ today @ [CHR 0x0A, CHR 0x0A]
                              @ ''*Sources: LinkedIn (email) + Remotive, We Work Remotely, RemoteOK, JobsCollider (RSS).*''
                              @ [CHR 0x0A] @ ''*[ ] to process '' @ middle_dot @ '' [x] applied '' @ middle_dot
                              @ '' [-] rejected.*'' @ [CHR 0x0A])
      in if str_includes mainContent ''## Remote job boards (RSS)'' then dir1
         else writeFile mainDigest (trimEnd mainContent @ block) dir1)"

section \<open>The LinkedIn search scrape (scrape-linkedin-search-playwright, \<^verbatim>\<open>runScrape\<close>)\<close>

text \<open>\<^verbatim>\<open>getJobViewUrl\<close> of the scrape: the canonical URL of the job id, or \<^verbatim>\<open>null\<close>.\<close>

definition getJobViewUrl :: "string \<Rightarrow> string option" where
  "getJobViewUrl url =
     (case getJobId url of
        Some i \<Rightarrow> Some (''https://www.linkedin.com/comm/jobs/view/'' @ i)
      | None \<Rightarrow> None)"

text \<open>
  \<^verbatim>\<open>isNonPmRole(title)\<close>: the four patterns, tried on the lower-cased title.
  \<^verbatim>\<open>fullstack?\s+engineer\<close> is \<^verbatim>\<open>fullstac\<close>, an optional \<^verbatim>\<open>k\<close>, white space, \<^verbatim>\<open>engineer\<close>.
\<close>

definition isNonPmRole :: "string \<Rightarrow> bool" where
  "isNonPmRole title =
     (if title = [] then False
      else
        let t = toLowerCase title
        in if rx_test (alts [lit ''product manager'', lit ''product owner'', lit ''head of product'',
                             Cat (lit ''cpo'') WordB, lit ''chief product'', lit ''compliance manager'']) t
           then False
           else if rx_test (seqs [WordB,
                     alts [lit_i ''software engineer'', lit_i ''c# engineer'', lit_i ''.net engineer'',
                           lit_i ''java engineer'', lit_i ''r&d engineer'', lit_i ''backend engineer'',
                           lit_i ''frontend engineer'',
                           seqs [lit_i ''fullstac'', maybe (ch_i CHR ''k''), many1 ws, lit_i ''engineer''],
                           lit_i ''devops engineer'', lit_i ''qa engineer'', lit_i ''data engineer'',
                           lit_i ''ml engineer'', lit_i ''game engineer''],
                     WordB]) t
           then True
           else if rx_test (seqs [WordB,
                     alts [lit_i ''backend developer'', lit_i ''frontend developer'',
                           seqs [lit_i ''fullstac'', maybe (ch_i CHR ''k''), many1 ws, lit_i ''developer''],
                           lit_i ''.net developer'', lit_i ''java developer'', lit_i ''c# developer''],
                     WordB]) t
           then True
           else rx_test (seqs [WordB, lit_i ''developer'', WordB]) t \<and> \<not> rx_test (lit_i ''product'') t)"

text \<open>\<^verbatim>\<open>isJobsSimilarLink(title)\<close>: \<^verbatim>\<open>/^jobs similar to\s/i\<close> on the trimmed title.\<close>

definition isJobsSimilarLink :: "string \<Rightarrow> bool" where
  "isJobsSimilarLink title = rx_test (seqs [Bol, lit_i ''jobs similar to'', ws]) (trim title)"

text \<open>
  \<^verbatim>\<open>normalizeTitle(title)\<close>: the suffix \<^verbatim>\<open>/\s+with verification\s*$/i\<close> is removed, the
  white space trimmed and collapsed; a title that is one phrase of more than ten characters
  written twice with nothing between the copies is cut to the phrase; at most 200
  characters are kept. The empty title is \<^verbatim>\<open>View job\<close>.
\<close>

definition normalizeTitle :: "string \<Rightarrow> string" where
  "normalizeTitle title =
     (if title = [] then ''View job''
      else
        let t = collapse_ws (trim (replace_first
                  (seqs [many1 ws, lit_i ''with verification'', Star ws, Eol]) (\<lambda>m. []) title));
            half = length t div 2;
            t2 = (if half > 10 \<and> take half t = take half (drop half t) then take half t else t)
        in if length t2 > 0 then take 200 t2 else ''View job'')"

text \<open>
  \<^verbatim>\<open>getExistingJobIds(digestPath)\<close>: the job ids of the links of the digest the scrape
  appends to, group 2 of \<^verbatim>\<open>/\]\((https?:[^)]*\/jobs\/view\/(\d+)[^)]*)\)/g\<close>. A digest
  of an earlier day is not read.
\<close>

definition getExistingJobIds :: "string option \<Rightarrow> string list" where
  "getExistingJobIds digest =
     (case digest of
        None \<Rightarrow> []
      | Some content \<Rightarrow>
          List.map_filter (\<lambda>m. rx_group m 2)
            (matches (seqs [lit '']('',
                        Grp 1 (seqs [lit ''http'', maybe (ch CHR ''s''), ch CHR '':'',
                                     Star (none_of '')''), lit ''/jobs/view/'', Grp 2 (many1 digit),
                                     Star (none_of '')'')]),
                        ch CHR '')'']) content))"

text \<open>
  A link of the results page, \<^verbatim>\<open>{ href, title }\<close>, and an entry of \<^verbatim>\<open>jobById\<close>,
  \<^verbatim>\<open>{ viewUrl, title }\<close>. The entry has no field for the organization; the line written
  for it has the em dash in the place of the company. \<^verbatim>\<open>jobById\<close> is a \<^verbatim>\<open>Map\<close>, here
  the list of its entries in the order of insertion.
\<close>

record link =
  href :: string
  l_title :: string

record entry =
  viewUrl :: string
  e_title :: string

text \<open>
  The body of the loop \<^verbatim>\<open>for (const item of list)\<close> (lines 260 to 285, and the same
  again at lines 301 to 316): a link with a new id adds an entry; a link with a known id
  replaces the title of the entry when its own title is not \<^verbatim>\<open>View job\<close> and the stored
  title is \<^verbatim>\<open>View job\<close> or shorter.
\<close>

definition addLink :: "string list \<Rightarrow> (string \<times> entry) list \<Rightarrow> link \<Rightarrow> (string \<times> entry) list" where
  "addLink existingIds jobById item =
     (case getJobViewUrl (href item) of
        None \<Rightarrow> jobById
      | Some vUrl \<Rightarrow>
          (case getJobId vUrl of
             None \<Rightarrow> jobById
           | Some i \<Rightarrow>
               if i \<in> set existingIds then jobById
               else if isJobsSimilarLink (l_title item) then jobById
               else
                 let normalizedTitle = normalizeTitle (l_title item)
                 in if isNonPmRole normalizedTitle then jobById
                    else (case map_of jobById i of
                            None \<Rightarrow> jobById @ [(i, \<lparr>viewUrl = vUrl, e_title = normalizedTitle\<rparr>)]
                          | Some existing \<Rightarrow>
                              if normalizedTitle \<noteq> ''View job''
                                 \<and> (e_title existing = ''View job''
                                      \<or> length normalizedTitle > length (e_title existing))
                              then map (\<lambda>(k, e). if k = i then (k, e\<lparr>e_title := normalizedTitle\<rparr>) else (k, e)) jobById
                              else jobById)))"

definition addLinks :: "string list \<Rightarrow> (string \<times> entry) list \<Rightarrow> link list \<Rightarrow> (string \<times> entry) list" where
  "addLinks existingIds jobById list = foldl (addLink existingIds) jobById list"

text \<open>
  The body of the two other loops of \<^verbatim>\<open>runScrape\<close>, over the links read while
  scrolling (lines 450 to 463) and after the last scroll (lines 565 to 577): a link with a
  new id adds an entry, a link with a known id changes nothing.
\<close>

definition addNewLink :: "string list \<Rightarrow> (string \<times> entry) list \<Rightarrow> link \<Rightarrow> (string \<times> entry) list" where
  "addNewLink existingIds jobById item =
     (case getJobViewUrl (href item) of
        None \<Rightarrow> jobById
      | Some vUrl \<Rightarrow>
          (case getJobId vUrl of
             None \<Rightarrow> jobById
           | Some i \<Rightarrow>
               if i \<in> set existingIds then jobById
               else if isJobsSimilarLink (l_title item) then jobById
               else
                 let normalizedTitle = normalizeTitle (l_title item)
                 in if isNonPmRole normalizedTitle then jobById
                    else if map_of jobById i = None
                         then jobById @ [(i, \<lparr>viewUrl = vUrl, e_title = normalizedTitle\<rparr>)]
                         else jobById))"

text \<open>
  A bullet of the section the scrape appends to the digest:
  \<^verbatim>\<open>- [ ] [<title> \<cdot> \<emdash> \<cdot> Remote](<viewUrl>)\<close>, the company always the em dash.
\<close>

definition newBullet :: "entry \<Rightarrow> string" where
  "newBullet j =
     ''- [ ] ['' @ take 120 (no_pipes (if e_title j \<noteq> [] then e_title j else ''View job''))
       @ '' '' @ middle_dot @ '' '' @ em_dash @ '' '' @ middle_dot @ '' Remote]('' @ viewUrl j @ '')''"

section \<open>The remote filter (filter-digest-remote-playwright)\<close>

subsection \<open>Reading a job page\<close>

text \<open>
  \<^verbatim>\<open>getJobViewUrl\<close> of the filter: the canonical URL of the job id, or the URL itself.
\<close>

definition viewUrlOf :: "string \<Rightarrow> string" where
  "viewUrlOf u =
     (case getJobId u of
        Some i \<Rightarrow> ''https://www.linkedin.com/comm/jobs/view/'' @ i
      | None \<Rightarrow> u)"

text \<open>
  The test of a URL after navigation, and \<^verbatim>\<open>isLoginOrAuthwallPage(html)\<close>. The second
  pattern of the script has a third, Russian alternative, which no page of this model
  contains.
\<close>

definition isLoginUrl :: "string \<Rightarrow> bool" where
  "isLoginUrl u = (str_includes u ''/login'' \<or> str_includes u ''/authwall'' \<or> str_includes u ''/checkpoint'')"

definition isLoginOrAuthwallPage :: "string \<Rightarrow> bool" where
  "isLoginOrAuthwallPage html =
     (if html = [] then True
      else
        let lower = toLowerCase html
        in str_includes lower ''authwall''
           \<or> rx_test (alts [lit_i ''sign in to linkedin'', lit_i ''log in to linkedin'']) html
           \<or> (length html < 3000
               \<and> rx_test (alts [lit_i ''login'', lit_i ''signin'', lit_i ''password'']) lower))"

definition getWorkTypeFromPage :: "string \<Rightarrow> string" where
  "getWorkTypeFromPage html =
     (if html = [] \<or> length html < 500 then ''unknown''
      else
        let lower = toLowerCase html;
            sep = many1 (Sym (\<lambda>c. c = CHR 0x22 \<or> is_space c \<or> c = CHR '':''))
        in if rx_test (seqs [WordB, lit ''hybrid'', WordB]) lower then ''hybrid''
           else if rx_test (alts
                     [seqs [WordB, lit ''on'', maybe (ch CHR ''-''), lit ''site'', WordB],
                      seqs [lit ''onsite'', WordB],
                      seqs [lit ''in'', maybe (ch CHR ''-''), lit ''office'', WordB],
                      seqs [lit ''in office'', WordB],
                      seqs [lit ''in'', maybe (ch CHR ''-''), lit ''person'', WordB],
                      seqs [lit ''in person'', WordB]]) lower then ''on-site''
           else if rx_test (seqs [WordB, lit ''remote'', WordB]) lower then ''remote''
           else if rx_test (seqs [lit ''workPlaceType'', sep, alts [lit ''hybrid'', lit ''HYBRID'']]) html
                then ''hybrid''
           else if rx_test (seqs [lit ''workPlaceType'', sep,
                     alts [seqs [lit ''on'', maybe (ch CHR ''-''), lit ''site''], lit ''ONSITE'', lit ''on_site'']]) html
                then ''on-site''
           else if rx_test (seqs [lit ''workPlaceType'', sep, alts [lit ''remote'', lit ''REMOTE'']]) html
                then ''remote''
           else ''unknown'')"

definition isJobClosed :: "string \<Rightarrow> bool" where
  "isJobClosed html =
     (if html = [] \<or> length html < 100 then False
      else
        rx_test (seqs [ch CHR ''>'', Star ws, upto 100 (none_of ''<''),
                   alts [lit_i ''no longer accepting applications'',
                         seqs [lit_i ''this '', alts [lit_i ''job'', lit_i ''position''], lit_i '' '',
                               maybe (lit_i ''is ''), lit_i ''no longer accepting''],
                         seqs [lit_i ''application'', maybe (ch_i CHR ''s''), lit_i '' '',
                               maybe (lit_i ''are ''), lit_i ''closed''],
                         seqs [lit_i ''position '', maybe (lit_i ''is ''), lit_i ''closed'']],
                   Star ws, ch CHR ''<'']) html
        \<or> rx_test (seqs [ch CHR ''<'', many1 (none_of ''>''), ch CHR ''>'', Star ws,
                       lit_i ''No longer accepting applications'', Star ws, ch CHR ''<'']) html)"

definition getCompanyFromPage :: "string \<Rightarrow> string" where
  "getCompanyFromPage html =
     (if html = [] \<or> length html < 200 then []
      else
        let quote = ch CHR 0x22;
            name = seqs [quote, lit ''name'', quote, Star ws, ch CHR '':'', Star ws, quote];
            value = many1 (none_of [CHR 0x22])
        in case rx_search (seqs [lit ''hiringOrganization'',
                      many1 (Sym (\<lambda>c. c = CHR 0x22 \<or> is_space c \<or> c = CHR '':'')),
                      alts [seqs [ch CHR ''{'', Star (none_of ''}''), name, Grp 1 value, quote],
                            seqs [name, Grp 2 value, quote]]]) html of
             Some m1 \<Rightarrow>
               take 80 (trim (case rx_group m1 1 of
                                Some g \<Rightarrow> g
                              | None \<Rightarrow> (case rx_group m1 2 of Some g \<Rightarrow> g | None \<Rightarrow> [])))
           | None \<Rightarrow>
               (case rx_search (seqs [quote, lit ''companyName'', quote, Star ws, ch CHR '':'', Star ws,
                                 quote, Grp 1 value, quote]) html of
                  Some m2 \<Rightarrow> take 80 (trim (case rx_group m2 1 of Some g \<Rightarrow> g | None \<Rightarrow> []))
                | None \<Rightarrow>
                    (case rx_search (seqs [lit_i ''job-details-jobs-unified-top-card__company-name'',
                                      Star (none_of ''>''), ch CHR ''>'', LazyStar any_char,
                                      lit_i ''</span>'']) html of
                       Some m3 \<Rightarrow>
                         (let inner = trim (collapse_ws (replace_all
                                        (seqs [ch CHR ''<'', many1 (none_of ''>''), ch CHR ''>'']) [] (m_text m3)))
                          in if length inner > 0 \<and> length inner < 100 then inner else [])
                     | None \<Rightarrow> [])))"

text \<open>
  \<^verbatim>\<open>parseTitleAndCompanyFromPageTitle(pageTitle)\<close>. The parts of
  \<^verbatim>\<open>split(/\s*\|\s*/)\<close>, trimmed, are the trimmed parts between the bars: the pattern
  takes the white space next to a bar and \<^verbatim>\<open>trim\<close> takes it too.
\<close>

definition parseTitleAndCompanyFromPageTitle :: "string \<Rightarrow> string \<times> string" where
  "parseTitleAndCompanyFromPageTitle pageTitle =
     (if pageTitle = [] then ([], [])
      else
        let parts = map trim (str_split ''|'' pageTitle)
        in if length parts \<ge> 3 \<and> toLowerCase (last parts) = ''linkedin''
           then (take 120 (parts ! 0), take 80 (parts ! 1))
           else if length parts \<ge> 2 then (take 120 (parts ! 0), take 80 (parts ! 1))
           else (take 120 (parts ! 0), []))"

definition sep_dot :: string where
  "sep_dot = '' '' @ middle_dot @ '' ''"

definition isGenericLinkText :: "string \<Rightarrow> bool" where
  "isGenericLinkText linkText =
     (if linkText = [] \<or> trim linkText = [] then True
      else
        let t = trim (hd (str_split sep_dot linkText))
        in rx_test (seqs [Bol, lit_i ''View job'', maybe (ch CHR ''.''), Eol]) t \<or> length t < 4)"

subsection \<open>The digest and the filter state\<close>

text \<open>
  \<^verbatim>\<open>JOB_LINE_RE\<close>,
  \<^verbatim>\<open>/^(- \[[ x\-]\] \[)([^\]]*)(\]\()(https?:[^)]+)(\))$/\<close>, and the five captures of a
  line that matches.
\<close>

definition JOB_LINE_RE :: rx where
  "JOB_LINE_RE =
     seqs [Bol,
           Grp 1 (seqs [lit ''- ['', one_of '' x-'', lit ''] ['']),
           Grp 2 (Star (none_of '']'')),
           Grp 3 (lit '']('' ),
           Grp 4 (seqs [lit ''http'', maybe (ch CHR ''s''), ch CHR '':'', many1 (none_of '')'')]),
           Grp 5 (ch CHR '')''),
           Eol]"

record job_line =
  prefix :: string
  linkText :: string
  l_url :: string
  suffix :: string

definition jobLine :: "string \<Rightarrow> job_line option" where
  "jobLine line =
     (case rx_search JOB_LINE_RE line of
        None \<Rightarrow> None
      | Some m \<Rightarrow>
          (case (rx_group m 1, rx_group m 2, rx_group m 3, rx_group m 4, rx_group m 5) of
             (Some m1, Some m2, Some m3, Some m4, Some m5) \<Rightarrow>
               Some \<lparr>prefix = m1, linkText = m2, l_url = m4, suffix = m3 @ m4 @ m5\<rparr>
           | _ \<Rightarrow> None))"

text \<open>
  A result of the filter state, \<^verbatim>\<open>{ remove, newLine }\<close>, and the results of a digest,
  \<^verbatim>\<open>stateResults\<close>, as the list of its entries. The run only adds a result for an id
  that has none.
\<close>

record saved =
  s_remove :: bool
  s_newLine :: "string option"

type_synonym results = "(string \<times> saved) list"

text \<open>
  The two files of a run: the digest (\<open>None\<close> when it does not exist) and
  \<^verbatim>\<open>digest-filter-state.json\<close>, from the name of a digest to its results (a missing
  file has no entry).
\<close>

record disk =
  digest :: "string option"
  filterState :: "(string \<times> results) list"

definition loadFilterState :: "disk \<Rightarrow> string \<Rightarrow> results" where
  "loadFilterState d digestName = (case map_of (filterState d) digestName of None \<Rightarrow> [] | Some r \<Rightarrow> r)"

definition saveFilterState :: "string \<Rightarrow> results \<Rightarrow> disk \<Rightarrow> disk" where
  "saveFilterState digestName stateResults d =
     d\<lparr>filterState :=
         (if digestName \<in> fst ` set (filterState d)
          then map (\<lambda>(n, r). if n = digestName then (n, stateResults) else (n, r)) (filterState d)
          else filterState d @ [(digestName, stateResults)])\<rparr>"

text \<open>
  What a run holds in memory: the results, the lines to remove, the blank lines to skip,
  the new text of lines, and the number of jobs processed in this run.
\<close>

record mem =
  stateResults :: results
  toRemove :: "nat list"
  skipBlankAfter :: "nat list"
  lineUpdates :: "(nat \<times> string) list"
  processedThisRun :: nat

text \<open>\<^verbatim>\<open>lines[i]\<close>, \<^verbatim>\<open>undefined\<close> behind the last line.\<close>

definition lineAt :: "string list \<Rightarrow> nat \<Rightarrow> string option" where
  "lineAt lines i = (if i < length lines then Some (lines ! i) else None)"

definition markRemoved :: "string list \<Rightarrow> nat \<Rightarrow> mem \<Rightarrow> mem" where
  "markRemoved lines lineIdx m =
     m\<lparr>toRemove := lineIdx # toRemove m,
       skipBlankAfter := (if lineAt lines (lineIdx + 1) = Some [] then (lineIdx + 1) # skipBlankAfter m
                          else skipBlankAfter m)\<rparr>"

text \<open>
  \<^verbatim>\<open>applyStateToDigest\<close>: the saved results, applied to the lines of the digest. A line
  without a job id looks up the key \<^verbatim>\<open>null\<close>.
\<close>

fun applyStateToDigest :: "string list \<Rightarrow> nat list \<Rightarrow> results \<Rightarrow> mem \<Rightarrow> mem" where
  "applyStateToDigest lines [] stateRes m = m"
| "applyStateToDigest lines (lineIdx # ks) stateRes m =
     (case jobLine (lines ! lineIdx) of
        None \<Rightarrow> applyStateToDigest lines ks stateRes m
      | Some jl \<Rightarrow>
          (case map_of stateRes (case getJobId (l_url jl) of None \<Rightarrow> ''null'' | Some i \<Rightarrow> i) of
             None \<Rightarrow> applyStateToDigest lines ks stateRes m
           | Some sv \<Rightarrow>
               if s_remove sv then applyStateToDigest lines ks stateRes (markRemoved lines lineIdx m)
               else if truthy_opt (s_newLine sv)
               then applyStateToDigest lines ks stateRes
                      (m\<lparr>lineUpdates := (lineIdx, the (s_newLine sv)) # lineUpdates m\<rparr>)
               else applyStateToDigest lines ks stateRes m))"

text \<open>
  \<^verbatim>\<open>writeDigestFromState\<close>: the content written to the digest file. The lines kept are
  counted by section, and the first line of the form
  \<^verbatim>\<open>**Best match: N** | Other: M\<close> gets the new counts.
\<close>

fun keptLines :: "mem \<Rightarrow> bool \<Rightarrow> nat \<Rightarrow> string list \<Rightarrow> string list \<times> nat \<times> nat" where
  "keptLines m inBest i [] = ([], 0, 0)"
| "keptLines m inBest i (line # rest) =
     (if i \<in> set (toRemove m) \<or> i \<in> set (skipBlankAfter m) then keptLines m inBest (i + 1) rest
      else
        let inBest1 = (if line = ''## Other (PM roles, check if relevant)'' then False else inBest)
        in case keptLines m inBest1 (i + 1) rest of
             (newLines, bestCount, otherCount) \<Rightarrow>
               ((case map_of (lineUpdates m) i of Some l \<Rightarrow> l | None \<Rightarrow> line) # newLines,
                (if rx_test JOB_LINE_RE line \<and> inBest1 then bestCount + 1 else bestCount),
                (if rx_test JOB_LINE_RE line \<and> \<not> inBest1 then otherCount + 1 else otherCount)))"

definition headerCountRe :: rx where
  "headerCountRe =
     seqs [BolM, lit ''**Best match: '', Grp 1 (many1 digit), lit ''** | Other: '', Grp 2 (many1 digit), EolM]"

definition writeDigestFromState :: "string list \<Rightarrow> mem \<Rightarrow> string" where
  "writeDigestFromState lines m =
     (case keptLines m True 0 lines of
        (newLines, bestCount, otherCount) \<Rightarrow>
          replace_first headerCountRe
            (\<lambda>x. ''**Best match: '' @ show_nat bestCount @ ''** | Other: '' @ show_nat otherCount)
            (str_join [CHR 0x0A] newLines))"

subsection \<open>The run\<close>

text \<open>
  A navigation of the browser either throws or lands on a page, of which the run reads the
  final URL, the title and the HTML.
\<close>

datatype nav = Throws | Landed string string string

text \<open>
  What the body of \<^verbatim>\<open>try\<close> does with the job of a line (lines 340 to 376): \<open>None\<close> when
  the script says \<^verbatim>\<open>continue\<close> (the browser is not logged in), else the result held for
  the job id and the memory with it.
\<close>

definition processPage :: "string list \<Rightarrow> nat \<Rightarrow> job_line \<Rightarrow> string \<Rightarrow> string \<Rightarrow> string \<Rightarrow> string \<Rightarrow> mem \<Rightarrow> mem option" where
  "processPage lines lineIdx jl jobIdent finalUrl pageTitle html m =
     (if isLoginUrl finalUrl then None
      else if isLoginOrAuthwallPage html then None
      else if isJobClosed html
      then Some ((markRemoved lines lineIdx m)
             \<lparr>stateResults := stateResults m @ [(jobIdent, \<lparr>s_remove = True, s_newLine = None\<rparr>)],
              processedThisRun := processedThisRun m + 1\<rparr>)
      else
        let workType = getWorkTypeFromPage html
        in if workType = ''hybrid'' \<or> workType = ''on-site''
           then Some ((markRemoved lines lineIdx m)
                  \<lparr>stateResults := stateResults m @ [(jobIdent, \<lparr>s_remove = True, s_newLine = None\<rparr>)],
                   processedThisRun := processedThisRun m + 1\<rparr>)
           else
             let fromPage = parseTitleAndCompanyFromPageTitle pageTitle;
                 currentTitle = (if str_includes (linkText jl) sep_dot
                                 then trim (hd (str_split sep_dot (linkText jl)))
                                 else trim (linkText jl));
                 title = (if isGenericLinkText (linkText jl) \<and> truthy (fst fromPage)
                          then fst fromPage else currentTitle);
                 company = (if truthy (snd fromPage) then snd fromPage
                            else if truthy (getCompanyFromPage html) then getCompanyFromPage html
                            else em_dash);
                 typeDisplay = capitalize workType;
                 newLine = prefix jl @ title @ sep_dot @ company @ sep_dot @ typeDisplay @ suffix jl
             in Some (m\<lparr>stateResults := stateResults m @ [(jobIdent, \<lparr>s_remove = False, s_newLine = Some newLine\<rparr>)],
                        lineUpdates := (lineIdx, newLine) # lineUpdates m,
                        processedThisRun := processedThisRun m + 1\<rparr>))"

text \<open>
  The events of a run, each with the two files as they are right after it: a job
  processed (its result is in memory), a job left because the browser is not logged in, a
  job whose navigation threw, the write of the digest, the write of the filter state, and
  the end of the run.
\<close>

datatype run_end = FileNotFound | NoJobLines | AllDone | SessionExpired | NavigationThrew | BatchLimit | Finished

datatype event =
    Processed string
  | NotLoggedIn string
  | Failed string
  | WroteDigest
  | WroteState
  | Stop run_end

text \<open>
  The two writes, in the order of the script: \<^verbatim>\<open>writeDigestFromState\<close>, then
  \<^verbatim>\<open>saveFilterState\<close>.
\<close>

definition writeBoth :: "string \<Rightarrow> string list \<Rightarrow> mem \<Rightarrow> disk \<Rightarrow> (event \<times> disk) list" where
  "writeBoth digestName lines m d =
     (let d1 = d\<lparr>digest := Some (writeDigestFromState lines m)\<rparr>;
          d2 = saveFilterState digestName (stateResults m) d1
      in [(WroteDigest, d1), (WroteState, d2)])"

definition diskAfter :: "disk \<Rightarrow> (event \<times> disk) list \<Rightarrow> disk" where
  "diskAfter d es = (if es = [] then d else snd (last es))"

text \<open>
  The end of an iteration (lines 381 to 400): \<open>batchSize\<close> is \<open>None\<close> for
  \<^verbatim>\<open>Number.POSITIVE_INFINITY\<close>, the value without \<^verbatim>\<open>--batch\<close>.
\<close>

definition hitBatchLimit :: "nat option \<Rightarrow> mem \<Rightarrow> bool" where
  "hitBatchLimit batchSize m = (case batchSize of None \<Rightarrow> False | Some b \<Rightarrow> processedThisRun m \<ge> b)"

definition periodicSave :: "nat option \<Rightarrow> mem \<Rightarrow> bool" where
  "periodicSave batchSize m =
     (batchSize = None \<and> processedThisRun m > 0 \<and> processedThisRun m mod 15 = 0)"

text \<open>
  The \<^verbatim>\<open>try\<close> block for the job of a line (lines 339 to 379): \<open>None\<close> when the
  script says \<^verbatim>\<open>continue\<close>; else the event and the memory after it, unchanged when
  the navigation threw.
\<close>

definition visit :: "(string \<Rightarrow> nav) \<Rightarrow> string list \<Rightarrow> nat \<Rightarrow> job_line \<Rightarrow> string \<Rightarrow> mem \<Rightarrow> (event \<times> mem) option" where
  "visit browse lines lineIdx jl jobIdent m =
     (case browse (viewUrlOf (l_url jl)) of
        Throws \<Rightarrow> Some (Failed jobIdent, m)
      | Landed finalUrl pageTitle html \<Rightarrow>
          (case processPage lines lineIdx jl jobIdent finalUrl pageTitle html m of
             None \<Rightarrow> None
           | Some m1 \<Rightarrow> Some (Processed jobIdent, m1)))"

text \<open>
  The loop \<^verbatim>\<open>for (let k = 0; k < jobLineIndices.length; k++)\<close> over the job lines, and
  the two writes after it (lines 323 to 407). After \<^verbatim>\<open>continue\<close> the end of the
  iteration is not reached.
\<close>

fun runLoop :: "(string \<Rightarrow> nav) \<Rightarrow> nat option \<Rightarrow> string \<Rightarrow> string list \<Rightarrow> nat list \<Rightarrow> mem \<Rightarrow> disk \<Rightarrow> (event \<times> disk) list" where
  "runLoop browse batchSize digestName lines [] m d =
     (let ws = writeBoth digestName lines m d in ws @ [(Stop Finished, diskAfter d ws)])"
| "runLoop browse batchSize digestName lines (lineIdx # ks) m d =
     (case jobLine (lines ! lineIdx) of
        None \<Rightarrow> runLoop browse batchSize digestName lines ks m d
      | Some jl \<Rightarrow>
          (case getJobId (l_url jl) of
             None \<Rightarrow> runLoop browse batchSize digestName lines ks m d
           | Some jobIdent \<Rightarrow>
               if map_of (stateResults m) jobIdent \<noteq> None
               then runLoop browse batchSize digestName lines ks m d
               else
                 (case visit browse lines lineIdx jl jobIdent m of
                    None \<Rightarrow> (NotLoggedIn jobIdent, d) # runLoop browse batchSize digestName lines ks m d
                  | Some r \<Rightarrow>
                      (let ws = (if hitBatchLimit batchSize (snd r) \<or> periodicSave batchSize (snd r)
                                 then writeBoth digestName lines (snd r) d else []);
                           d1 = diskAfter d ws
                       in (fst r, d) # ws
                          @ (if hitBatchLimit batchSize (snd r) then [(Stop BatchLimit, d1)]
                             else runLoop browse batchSize digestName lines ks (snd r) d1)))))"

text \<open>
  \<^verbatim>\<open>runFilter(filePath, batchSize)\<close>: \<open>feed\<close> is the navigation to the feed page before
  the loop, \<open>browse\<close> the navigation to the page of a job.
\<close>

definition jobLineIndices :: "string list \<Rightarrow> nat list" where
  "jobLineIndices lines = filter (\<lambda>i. rx_test JOB_LINE_RE (lines ! i)) [0 ..< length lines]"

definition remaining :: "string list \<Rightarrow> nat list \<Rightarrow> results \<Rightarrow> nat list" where
  "remaining lines idxs stateRes =
     filter (\<lambda>idx. case jobLine (lines ! idx) of
                      None \<Rightarrow> False
                    | Some jl \<Rightarrow> (case getJobId (l_url jl) of
                                    None \<Rightarrow> False
                                  | Some i \<Rightarrow> map_of stateRes i = None))
       idxs"

definition runFilter :: "nav \<Rightarrow> (string \<Rightarrow> nav) \<Rightarrow> nat option \<Rightarrow> string \<Rightarrow> disk \<Rightarrow> (event \<times> disk) list" where
  "runFilter feed browse batchSize digestName d =
     (case digest d of
        None \<Rightarrow> [(Stop FileNotFound, d)]
      | Some content \<Rightarrow>
          let lines = str_split [CHR 0x0A] content;
              idxs = jobLineIndices lines
          in if idxs = [] then [(Stop NoJobLines, d)]
             else
               let stateRes = loadFilterState d digestName;
                   m = applyStateToDigest lines idxs stateRes
                         \<lparr>stateResults = stateRes, toRemove = [], skipBlankAfter = [], lineUpdates = [],
                          processedThisRun = 0\<rparr>
               in if remaining lines idxs stateRes = []
                  then (let d1 = d\<lparr>digest := Some (writeDigestFromState lines m)\<rparr>
                        in [(WroteDigest, d1), (Stop AllDone, d1)])
                  else
                    (case feed of
                       Throws \<Rightarrow> [(Stop NavigationThrew, d)]
                     | Landed afterFeed pageTitle html \<Rightarrow>
                         if isLoginUrl afterFeed then [(Stop SessionExpired, d)]
                         else runLoop browse batchSize digestName lines idxs m d))"

section \<open>Application tracker (track-application)\<close>

text \<open>
  A record of \<^verbatim>\<open>applications-tracker.json\<close>, with the fields \<^verbatim>\<open>addApplication\<close> gives
  it. A status is the string the caller passes. A date is a string, \<^verbatim>\<open>YYYY-MM-DD\<close> when
  the tracker makes it; \<^verbatim>\<open>null\<close> is \<open>None\<close>. \<^verbatim>\<open>response_days\<close> is a JavaScript
  number, which can be \<^verbatim>\<open>NaN\<close>.
\<close>

datatype jsnum = NaN | Num int

record history_entry =
  h_status :: string
  h_date :: string
  h_notes :: string

record application =
  app_id :: string
  date_applied :: string
  role :: string
  company :: string
  source :: string
  url :: string
  jobId :: "string option"
  location :: string
  industry :: string
  status :: string
  status_history :: "history_entry list"
  response_date :: "string option"
  response_days :: "jsnum option"
  interview_dates :: "string list"
  offer_date :: "string option"
  rejection_date :: "string option"
  feedback_type :: "string option"
  feedback_text :: "string option"
  app_notes :: string
  tags :: "string list"

record tracker_meta =
  version :: string
  created :: string
  last_updated :: string

record tracker =
  meta :: tracker_meta
  applications :: "application list"

text \<open>
  The tracker file is \<open>None\<close> when it does not exist. \<open>today\<close> is
  \<^verbatim>\<open>new Date().toISOString().split('T')[0]\<close>.
\<close>

definition loadTracker :: "string \<Rightarrow> tracker option \<Rightarrow> tracker" where
  "loadTracker today file =
     (case file of
        None \<Rightarrow> \<lparr>meta = \<lparr>version = ''1.0'', created = today, last_updated = today\<rparr>, applications = []\<rparr>
      | Some t \<Rightarrow> t)"

definition saveTracker :: "string \<Rightarrow> tracker \<Rightarrow> tracker option" where
  "saveTracker today t = Some (t\<lparr>meta := (meta t)\<lparr>last_updated := today\<rparr>\<rparr>)"

text \<open>
  \<^verbatim>\<open>addApplication(data)\<close>, with the id \<^verbatim>\<open>generateId()\<close> makes as an argument. The
  fields of \<open>data\<close> that are not given are empty.
\<close>

record application_data =
  d_date_applied :: string
  d_role :: string
  d_company :: string
  d_source :: string
  d_url :: string
  d_jobId :: "string option"
  d_location :: string
  d_industry :: string
  d_notes :: string
  d_tags :: "string list"

definition newApplication :: "string \<Rightarrow> string \<Rightarrow> application_data \<Rightarrow> application" where
  "newApplication today newId data =
     \<lparr>app_id = newId,
      date_applied = (if truthy (d_date_applied data) then d_date_applied data else today),
      role = d_role data,
      company = d_company data,
      source = (if truthy (d_source data) then d_source data else ''linkedin''),
      url = d_url data,
      jobId = (if truthy_opt (d_jobId data) then d_jobId data
               else if truthy (d_url data) then getJobId (d_url data) else None),
      location = d_location data,
      industry = d_industry data,
      status = ''applied'',
      status_history = [\<lparr>h_status = ''applied'',
                         h_date = (if truthy (d_date_applied data) then d_date_applied data else today),
                         h_notes = d_notes data\<rparr>],
      response_date = None,
      response_days = None,
      interview_dates = [],
      offer_date = None,
      rejection_date = None,
      feedback_type = None,
      feedback_text = None,
      app_notes = d_notes data,
      tags = d_tags data\<rparr>"

definition addApplication :: "string \<Rightarrow> string \<Rightarrow> tracker option \<Rightarrow> application_data \<Rightarrow> application \<times> tracker option" where
  "addApplication today newId file data =
     (let tracker = loadTracker today file;
          app = newApplication today newId data
      in (app, saveTracker today (tracker\<lparr>applications := applications tracker @ [app]\<rparr>)))"

text \<open>
  \<^verbatim>\<open>Math.floor((new Date(d2) - new Date(d1)) / (1000 * 60 * 60 * 24))\<close>. \<open>dateMs\<close> is the
  time value of \<^verbatim>\<open>new Date(s)\<close> in milliseconds, \<open>None\<close> for an invalid date.
\<close>

definition daysBetween :: "(string \<Rightarrow> int option) \<Rightarrow> string \<Rightarrow> string \<Rightarrow> jsnum" where
  "daysBetween dateMs d1 d2 =
     (case (dateMs d1, dateMs d2) of
        (Some t1, Some t2) \<Rightarrow> Num ((t2 - t1) div (1000 * 60 * 60 * 24))
      | _ \<Rightarrow> NaN)"

text \<open>
  The body of \<^verbatim>\<open>updateStatus\<close> after the record has been found (lines 138 to 172): the
  changes made to the record.
\<close>

definition updatedApp :: "(string \<Rightarrow> int option) \<Rightarrow> string \<Rightarrow> application \<Rightarrow> string \<Rightarrow> string option \<Rightarrow> string \<Rightarrow> application" where
  "updatedApp dateMs today app newStatus date newNotes =
     (let updateDate = (if truthy_opt date then the date else today);
          app1 = app\<lparr>status := newStatus,
                     status_history := status_history app
                        @ [\<lparr>h_status = newStatus, h_date = updateDate, h_notes = newNotes\<rparr>]\<rparr>;
          app2 = (if newStatus = ''responded'' \<and> \<not> truthy_opt (response_date app1)
                  then app1\<lparr>response_date := Some updateDate,
                            response_days := Some (daysBetween dateMs (date_applied app1) updateDate)\<rparr>
                  else app1);
          app3 = (if newStatus = ''interview'' \<and> updateDate \<notin> set (interview_dates app2)
                  then app2\<lparr>interview_dates := interview_dates app2 @ [updateDate]\<rparr>
                  else app2);
          app4 = (if newStatus = ''offer'' then app3\<lparr>offer_date := Some updateDate\<rparr> else app3);
          app5 = (if newStatus = ''rejected'' then app4\<lparr>rejection_date := Some updateDate\<rparr> else app4)
      in if truthy newNotes
         then app5\<lparr>app_notes := (if truthy (app_notes app5) then app_notes app5 @ [CHR 0x0A, CHR 0x0A] else [])
                               @ updateDate @ '': '' @ newNotes\<rparr>
         else app5)"

text \<open>
  \<^verbatim>\<open>applications.find(a => a.id === applicationId)\<close> is the first record with the id;
  the record is changed in place, so the saved list has the changed record at its position.
\<close>

fun replaceFirst :: "string \<Rightarrow> application \<Rightarrow> application list \<Rightarrow> application list" where
  "replaceFirst i new [] = []"
| "replaceFirst i new (a # as) = (if app_id a = i then new # as else a # replaceFirst i new as)"

text \<open>
  \<^verbatim>\<open>updateStatus(applicationId, newStatus, date, notes)\<close>: the value returned
  (\<^verbatim>\<open>null\<close> is \<open>None\<close>) and the tracker file after the call.
\<close>

definition updateStatus :: "(string \<Rightarrow> int option) \<Rightarrow> string \<Rightarrow> tracker option \<Rightarrow> string \<Rightarrow> string \<Rightarrow> string option \<Rightarrow> string \<Rightarrow> application option \<times> tracker option" where
  "updateStatus dateMs today file applicationId newStatus date newNotes =
     (let tracker = loadTracker today file
      in case find (\<lambda>a. app_id a = applicationId) (applications tracker) of
           None \<Rightarrow> (None, file)
         | Some app \<Rightarrow>
             (let app' = updatedApp dateMs today app newStatus date newNotes
              in (Some app',
                  saveTracker today
                    (tracker\<lparr>applications := replaceFirst applicationId app' (applications tracker)\<rparr>))))"

text \<open>
  A call of \<^verbatim>\<open>updateStatus\<close>, with the day it is made on, and the tracker file after a
  sequence of calls.
\<close>

record status_call =
  c_today :: string
  c_id :: string
  c_status :: string
  c_date :: "string option"
  c_notes :: string

definition call :: "(string \<Rightarrow> int option) \<Rightarrow> tracker option \<Rightarrow> status_call \<Rightarrow> tracker option" where
  "call dateMs file c =
     snd (updateStatus dateMs (c_today c) file (c_id c) (c_status c) (c_date c) (c_notes c))"

definition calls :: "(string \<Rightarrow> int option) \<Rightarrow> tracker option \<Rightarrow> status_call list \<Rightarrow> tracker option" where
  "calls dateMs file cs = foldl (call dateMs) file cs"

text \<open>The record of an id in the tracker file, as \<^verbatim>\<open>find\<close> gives it.\<close>

definition findApp :: "tracker option \<Rightarrow> string \<Rightarrow> application option" where
  "findApp file i = (case file of None \<Rightarrow> None | Some t \<Rightarrow> find (\<lambda>a. app_id a = i) (applications t))"

text \<open>
  The time value of \<^verbatim>\<open>new Date(s)\<close> for a day \<^verbatim>\<open>YYYY-MM-DD\<close> of the calendar,
  midnight UTC of that day: the days from 1970-01-01 in the Gregorian calendar, times the
  milliseconds of a day. It stands for \<open>dateMs\<close> where a run is computed; the runs below
  have such days only.
\<close>

definition daysFromCivil :: "int \<Rightarrow> int \<Rightarrow> int \<Rightarrow> int" where
  "daysFromCivil y m d =
     (let y1 = (if m \<le> 2 then y - 1 else y);
          era = y1 div 400;
          yoe = y1 - era * 400;
          doy = (153 * (if m > 2 then m - 3 else m + 9) + 2) div 5 + d - 1;
          doe = yoe * 365 + yoe div 4 - yoe div 100 + doy
      in era * 146097 + doe - 719468)"

definition daysInMonth :: "int \<Rightarrow> int \<Rightarrow> int" where
  "daysInMonth y m =
     (if m = 2 then (if y mod 4 = 0 \<and> (y mod 100 \<noteq> 0 \<or> y mod 400 = 0) then 29 else 28)
      else if m = 4 \<or> m = 6 \<or> m = 9 \<or> m = 11 then 30 else 31)"

fun number_of :: "int \<Rightarrow> string \<Rightarrow> int" where
  "number_of acc [] = acc"
| "number_of acc (c # cs) = number_of (acc * 10 + (int (of_char c) - 48)) cs"

definition isoDayMs :: "string \<Rightarrow> int option" where
  "isoDayMs s =
     (let y = number_of 0 (take 4 s); m = number_of 0 (take 2 (drop 5 s)); d = number_of 0 (drop 8 s)
      in if length s = 10 \<and> s ! 4 = CHR ''-'' \<and> s ! 7 = CHR ''-''
            \<and> list_all is_digit (take 4 s @ take 2 (drop 5 s) @ drop 8 s)
            \<and> 1 \<le> m \<and> m \<le> 12 \<and> 1 \<le> d \<and> d \<le> daysInMonth y m
         then Some (daysFromCivil y m d * 86400000)
         else None)"

section \<open>Deduplication of applications (deduplicate-applications)\<close>

text \<open>
  \<^verbatim>\<open>statusOrder\<close>, and the test \<^verbatim>\<open>statusOrder[other.status] > statusOrder[main.status]\<close>:
  a status without an entry (\<^verbatim>\<open>withdrawn\<close> is one) gives \<^verbatim>\<open>undefined\<close>, and a
  comparison with \<^verbatim>\<open>undefined\<close> is false.
\<close>

definition statusOrder :: "string \<Rightarrow> nat option" where
  "statusOrder s = map_of [(''applied'', 0), (''responded'', 1), (''interview'', 2), (''offer'', 3),
                           (''rejected'', 4)] s"

definition moreAdvanced :: "string \<Rightarrow> string \<Rightarrow> bool" where
  "moreAdvanced otherStatus mainStatus =
     (case (statusOrder otherStatus, statusOrder mainStatus) of
        (Some x, Some y) \<Rightarrow> x > y
      | _ \<Rightarrow> False)"

text \<open>
  The body of the loop over the other records of a company (lines 66 to 97): what the
  record \<open>other'\<close> adds to the record \<open>main\<close>. The dates of response, interview, offer and
  rejection of \<open>other'\<close> are not read.
\<close>

definition mergeOther :: "application \<Rightarrow> application \<Rightarrow> application" where
  "mergeOther main other' =
     (let m1 = (if truthy_opt (jobId other') \<and> \<not> truthy_opt (jobId main)
                then main\<lparr>jobId := jobId other'\<rparr> else main);
          m2 = (if truthy (url other') \<and> \<not> truthy (url m1) then m1\<lparr>url := url other'\<rparr> else m1);
          m3 = (if truthy (role other') \<and> role other' \<noteq> ''Unknown Role''
                   \<and> (role m2 = ''Unknown Role'' \<or> length (role m2) < length (role other'))
                then m2\<lparr>role := role other'\<rparr> else m2);
          m4 = (if truthy (location other') \<and> \<not> truthy (location m3)
                then m3\<lparr>location := location other'\<rparr> else m3);
          m5 = (if moreAdvanced (status other') (status m4)
                then m4\<lparr>status := status other',
                         status_history := status_history m4 @ status_history other'\<rparr>
                else m4)
      in if truthy (app_notes other') \<and> \<not> str_includes (app_notes m5) (app_notes other')
         then m5\<lparr>app_notes := (if truthy (app_notes m5) then app_notes m5 @ [CHR 0x0A, CHR 0x0A] else [])
                             @ app_notes other'\<rparr>
         else m5)"

text \<open>
  The key of a record, and the keys of \<^verbatim>\<open>byCompany\<close> in the order of
  \<^verbatim>\<open>Object.entries\<close>: the keys that are array indices first, by value, then the others
  in the order of their first record.
\<close>

definition companyKey :: "application \<Rightarrow> string" where
  "companyKey a = trim (toLowerCase (company a))"

definition isArrayIndex :: "string \<Rightarrow> bool" where
  "isArrayIndex k =
     (k \<noteq> [] \<and> list_all is_digit k \<and> (k = ''0'' \<or> hd k \<noteq> CHR ''0'')
      \<and> length k \<le> 10 \<and> number_of 0 k < 4294967295)"

definition entriesOrder :: "string list \<Rightarrow> string list" where
  "entriesOrder ks =
     (let keys = rev (remdups (rev ks))
      in sort_key (number_of 0) (filter isArrayIndex keys) @ filter (\<lambda>k. \<not> isArrayIndex k) keys)"

text \<open>
  A group of \<^verbatim>\<open>duplicates\<close>, as the positions of its records in \<^verbatim>\<open>apps\<close>, after the
  sort that puts the records of source \<^verbatim>\<open>company_site\<close> first and keeps the order
  otherwise.
\<close>

definition groupOf :: "application list \<Rightarrow> string \<Rightarrow> nat list" where
  "groupOf apps k =
     (let idxs = filter (\<lambda>i. companyKey (apps ! i) = k) [0 ..< length apps]
      in filter (\<lambda>i. source (apps ! i) = ''company_site'') idxs
         @ filter (\<lambda>i. source (apps ! i) \<noteq> ''company_site'') idxs)"

definition duplicates :: "application list \<Rightarrow> nat list list" where
  "duplicates apps =
     filter (\<lambda>g. length g > 1) (map (groupOf apps) (entriesOrder (map companyKey apps)))"

text \<open>
  The record \<open>main\<close> of a group after the loop over the others. It is changed in place: the
  list \<^verbatim>\<open>apps\<close> holds the changed record.
\<close>

definition mergedMain :: "application list \<Rightarrow> nat list \<Rightarrow> application" where
  "mergedMain apps g = foldl mergeOther (apps ! hd g) (map (\<lambda>i. apps ! i) (tl g))"

definition findIndex :: "('a \<Rightarrow> bool) \<Rightarrow> 'a list \<Rightarrow> nat option" where
  "findIndex P xs = (case filter (\<lambda>i. P (xs ! i)) [0 ..< length xs] of [] \<Rightarrow> None | i # is \<Rightarrow> Some i)"

datatype dedup_end = Threw | NoDuplicates | Deduplicated

text \<open>
  \<^verbatim>\<open>deduplicateApplications()\<close>: how the run ends, and the tracker file after it.
  \<^verbatim>\<open>byCompany\<close> is a plain object, so a record whose key is \<^verbatim>\<open>constructor\<close> or
  \<^verbatim>\<open>__proto__\<close> finds an inherited value there and \<^verbatim>\<open>push\<close> throws; reading a missing
  tracker file throws too.
\<close>

definition deduplicateApplications :: "string \<Rightarrow> tracker option \<Rightarrow> dedup_end \<times> tracker option" where
  "deduplicateApplications today file =
     (case file of
        None \<Rightarrow> (Threw, file)
      | Some tracker \<Rightarrow>
          let apps = applications tracker
          in if \<exists>a \<in> set apps. companyKey a = ''constructor'' \<or> companyKey a = ''__proto__''
             then (Threw, file)
             else
               let groups = duplicates apps
               in if groups = [] then (NoDuplicates, file)
                  else
                    let merged = map (mergedMain apps) groups;
                        toRemove = concat (map (\<lambda>g. map (\<lambda>i. app_id (apps ! i)) (tl g)) groups);
                        apps1 = foldl (\<lambda>xs g. xs[hd g := mergedMain apps g]) apps groups;
                        deduplicated = filter (\<lambda>a. app_id a \<notin> set toRemove) apps1;
                        deduplicated1 = foldl (\<lambda>xs mergedApp.
                            case findIndex (\<lambda>a. app_id a = app_id mergedApp) xs of
                              None \<Rightarrow> xs
                            | Some index \<Rightarrow> xs[index := mergedApp]) deduplicated merged
                    in (Deduplicated, saveTracker today (tracker\<lparr>applications := deduplicated1\<rparr>)))"

section \<open>Sample records\<close>

text \<open>
  Two applications to the same company, made two days apart: one through the site of the
  company, one through LinkedIn with the company name written another way.
\<close>

definition acme_site :: application_data where
  "acme_site =
     \<lparr>d_date_applied = ''2026-02-01'', d_role = ''Senior Product Manager'', d_company = ''Acme'',
      d_source = ''company_site'', d_url = [], d_jobId = None, d_location = ''Remote'',
      d_industry = [], d_notes = [], d_tags = []\<rparr>"

definition acme_linkedin :: application_data where
  "acme_linkedin =
     \<lparr>d_date_applied = ''2026-02-03'', d_role = ''Senior PM'', d_company = ''ACME '',
      d_source = ''linkedin'', d_url = ''https://www.linkedin.com/jobs/view/123'', d_jobId = None,
      d_location = [], d_industry = [], d_notes = [], d_tags = []\<rparr>"

definition sample_tracker :: "tracker option" where
  "sample_tracker =
     snd (addApplication ''2026-02-03'' ''app-2''
            (snd (addApplication ''2026-02-01'' ''app-1'' None acme_site)) acme_linkedin)"

definition status_on :: "string \<Rightarrow> string \<Rightarrow> string \<Rightarrow> status_call" where
  "status_on day i s = \<lparr>c_today = day, c_id = i, c_status = s, c_date = None, c_notes = []\<rparr>"

section \<open>Status updates of the tracker\<close>

lemma find_replaceFirst:
  "app_id new = j \<Longrightarrow> find (\<lambda>a. app_id a = j) as = Some b \<Longrightarrow>
     find (\<lambda>a. app_id a = i) (replaceFirst j new as)
       = (if i = j then Some new else find (\<lambda>a. app_id a = i) as)"
  by (induction as) (auto split: if_splits)

lemma updatedApp_id: "app_id (updatedApp dateMs today a s d n) = app_id a"
  by (simp add: updatedApp_def Let_def)

lemma find_Some_id: "find (\<lambda>a. app_id a = i) as = Some a \<Longrightarrow> app_id a = i"
  by (induction as) (auto split: if_splits)

text \<open>
  A call changes the record of its own id, as \<open>updatedApp\<close> says, and no other record.
\<close>

lemma findApp_call:
  assumes "findApp fl i = Some a"
  shows "findApp (call dateMs fl c) i
           = Some (if c_id c = i then updatedApp dateMs (c_today c) a (c_status c) (c_date c) (c_notes c) else a)"
proof -
  from assms obtain t where t: "fl = Some t" and f: "find (\<lambda>a. app_id a = i) (applications t) = Some a"
    by (auto simp: findApp_def split: option.splits)
  show ?thesis
  proof (cases "find (\<lambda>a. app_id a = c_id c) (applications t)")
    case None
    with f have "c_id c \<noteq> i" by auto
    with None t f show ?thesis
      by (simp add: call_def updateStatus_def loadTracker_def findApp_def)
  next
    case (Some b)
    have idb: "app_id b = c_id c" using Some by (rule find_Some_id)
    let ?b = "updatedApp dateMs (c_today c) b (c_status c) (c_date c) (c_notes c)"
    have "find (\<lambda>a. app_id a = i) (replaceFirst (c_id c) ?b (applications t))
            = (if i = c_id c then Some ?b else find (\<lambda>a. app_id a = i) (applications t))"
      by (rule find_replaceFirst) (simp_all add: updatedApp_id idb Some)
    moreover have "c_id c = i \<Longrightarrow> b = a" using Some f by simp
    ultimately show ?thesis using t f Some
      by (auto simp: call_def updateStatus_def loadTracker_def findApp_def saveTracker_def Let_def)
  qed
qed

lemma updatedApp_response_kept:
  "truthy_opt (response_date a) \<or> s \<noteq> ''responded'' \<Longrightarrow>
     response_date (updatedApp dateMs today a s d n) = response_date a
     \<and> response_days (updatedApp dateMs today a s d n) = response_days a"
  by (auto simp: updatedApp_def Let_def)

lemma updatedApp_date_applied: "date_applied (updatedApp dateMs today a s d n) = date_applied a"
  by (simp add: updatedApp_def Let_def)


text \<open>
  A record made by \<^verbatim>\<open>addApplication\<close> has no response date, and no call with another
  status than \<^verbatim>\<open>responded\<close> gives it one: for such a record the first transition to
  \<^verbatim>\<open>responded\<close> is the one that finds the response date unset.
\<close>

lemma newApplication_unset: "response_date (newApplication today newId data) = None"
  by (simp add: newApplication_def)

lemma unset_until_responded:
  assumes "findApp fl i = Some a"
    and "\<forall>c \<in> set cs. c_id c = i \<longrightarrow> c_status c \<noteq> ''responded''"
  shows "\<exists>a'. findApp (calls dateMs fl cs) i = Some a'
            \<and> response_date a' = response_date a \<and> response_days a' = response_days a
            \<and> date_applied a' = date_applied a"
  using assms
proof (induction cs arbitrary: fl a)
  case Nil
  then show ?case by (simp add: calls_def)
next
  case (Cons c cs)
  let ?a = "if c_id c = i then updatedApp dateMs (c_today c) a (c_status c) (c_date c) (c_notes c) else a"
  have f: "findApp (call dateMs fl c) i = Some ?a" using Cons.prems(1) by (rule findApp_call)
  have k: "response_date ?a = response_date a \<and> response_days ?a = response_days a \<and> date_applied ?a = date_applied a"
    using Cons.prems(2) by (simp add: updatedApp_response_kept updatedApp_date_applied)
  have "\<forall>c \<in> set cs. c_id c = i \<longrightarrow> c_status c \<noteq> ''responded''" using Cons.prems(2) by simp
  from Cons.IH[OF f this] k show ?case by (simp add: calls_def)
qed




text \<open>
  C8, as the code has it. A call \<^verbatim>\<open>updateStatus(i, 'offer', date)\<close> sets
  \<^verbatim>\<open>offer_date\<close> to the date of the call, whatever the field held, and
  \<^verbatim>\<open>updateStatus(i, 'rejected', date)\<close> does the same to \<^verbatim>\<open>rejection_date\<close>: the last
  write wins. Each call appends its entry to the status history.
\<close>

theorem offer_rejection_last_write_wins:
  assumes "findApp fl i = Some a"
  shows "findApp (snd (updateStatus dateMs today fl i ''offer'' date newNotes)) i
           = Some (updatedApp dateMs today a ''offer'' date newNotes)
       \<and> offer_date (updatedApp dateMs today a ''offer'' date newNotes)
           = Some (if truthy_opt date then the date else today)
       \<and> status_history (updatedApp dateMs today a ''offer'' date newNotes)
           = status_history a @ [\<lparr>h_status = ''offer'', h_date = (if truthy_opt date then the date else today), h_notes = newNotes\<rparr>]
       \<and> findApp (snd (updateStatus dateMs today fl i ''rejected'' date newNotes)) i
           = Some (updatedApp dateMs today a ''rejected'' date newNotes)
       \<and> rejection_date (updatedApp dateMs today a ''rejected'' date newNotes)
           = Some (if truthy_opt date then the date else today)
       \<and> status_history (updatedApp dateMs today a ''rejected'' date newNotes)
           = status_history a @ [\<lparr>h_status = ''rejected'', h_date = (if truthy_opt date then the date else today), h_notes = newNotes\<rparr>]"
proof -
  have o: "findApp (snd (updateStatus dateMs today fl i ''offer'' date newNotes)) i
           = Some (updatedApp dateMs today a ''offer'' date newNotes)"
    using findApp_call[OF assms, of dateMs "\<lparr>c_today = today, c_id = i, c_status = ''offer'', c_date = date, c_notes = newNotes\<rparr>"]
    by (simp add: call_def)
  have r: "findApp (snd (updateStatus dateMs today fl i ''rejected'' date newNotes)) i
           = Some (updatedApp dateMs today a ''rejected'' date newNotes)"
    using findApp_call[OF assms, of dateMs "\<lparr>c_today = today, c_id = i, c_status = ''rejected'', c_date = date, c_notes = newNotes\<rparr>"]
    by (simp add: call_def)
  show ?thesis using o r by (simp add: updatedApp_def Let_def)
qed

text \<open>
  The theorem at the application of 2026-02-01 to Acme, rejected on 2026-02-10: a second
  rejection on 2026-02-20 finds the date 2026-02-10 in the record and leaves 2026-02-20.
\<close>

theorem offer_rejection_last_write_wins_witness:
  "map_option rejection_date
     (findApp (call isoDayMs sample_tracker (status_on ''2026-02-10'' ''app-1'' ''rejected'')) ''app-1'')
     = Some (Some ''2026-02-10'')
   \<and> map_option rejection_date
     (findApp (snd (updateStatus isoDayMs ''2026-02-20''
                      (call isoDayMs sample_tracker (status_on ''2026-02-10'' ''app-1'' ''rejected''))
                      ''app-1'' ''rejected'' None []))
        ''app-1'')
     = Some (Some ''2026-02-20'')"
proof -
  let ?f = "call isoDayMs sample_tracker (status_on ''2026-02-10'' ''app-1'' ''rejected'')"
  have h: "findApp ?f ''app-1'' = Some (the (findApp ?f ''app-1''))" by code_simp
  have d: "map_option rejection_date (findApp ?f ''app-1'') = Some (Some ''2026-02-10'')" by code_simp
  have t: "(if truthy_opt None then the None else ''2026-02-20'') = ''2026-02-20''" by code_simp
  from offer_rejection_last_write_wins[OF h, of isoDayMs "''2026-02-20''" None "[]"] d t
  show ?thesis by simp
qed

text \<open>
  C8 as stated fails: the first rejection, of 2026-02-10, does not win over the second.
\<close>

theorem rejection_date_overwritten:
  "map_option rejection_date
     (findApp (calls isoDayMs sample_tracker
                 [status_on ''2026-02-10'' ''app-1'' ''rejected'',
                  status_on ''2026-02-20'' ''app-1'' ''rejected''])
        ''app-1'')
     = Some (Some ''2026-02-20'')"
  by code_simp

text \<open>
  C10. When no record of the tracker has the id, \<^verbatim>\<open>updateStatus\<close> returns \<^verbatim>\<open>null\<close> and the
  tracker file is as it was, not written and not created: not even \<^verbatim>\<open>last_updated\<close>
  changes.
\<close>

theorem updateStatus_unknown_id:
  assumes "\<forall>a \<in> set (applications (loadTracker today fl)). app_id a \<noteq> applicationId"
  shows "updateStatus dateMs today fl applicationId newStatus date newNotes = (None, fl)"
proof -
  have "find (\<lambda>a. app_id a = applicationId) (applications (loadTracker today fl)) = None"
    using assms by (simp add: find_None_iff)
  then show ?thesis by (simp add: updateStatus_def)
qed

text \<open>
  The theorem at the tracker of the two applications to Acme and the id \<^verbatim>\<open>app-9\<close>, and
  the same call at the id \<^verbatim>\<open>app-1\<close>, which writes.
\<close>

theorem updateStatus_unknown_id_witness:
  "map app_id (applications (loadTracker ''2026-02-10'' sample_tracker)) = [''app-1'', ''app-2'']
   \<and> updateStatus isoDayMs ''2026-02-10'' sample_tracker ''app-9'' ''interview'' None [] = (None, sample_tracker)
   \<and> snd (updateStatus isoDayMs ''2026-02-10'' sample_tracker ''app-1'' ''interview'' None []) \<noteq> sample_tracker"
proof -
  have ids: "map app_id (applications (loadTracker ''2026-02-10'' sample_tracker)) = [''app-1'', ''app-2'']"
    by code_simp
  have h: "\<forall>a \<in> set (applications (loadTracker ''2026-02-10'' sample_tracker)). app_id a \<noteq> ''app-9''"
    by code_simp
  have w: "snd (updateStatus isoDayMs ''2026-02-10'' sample_tracker ''app-1'' ''interview'' None []) \<noteq> sample_tracker"
    by code_simp
  from updateStatus_unknown_id[OF h, of isoDayMs "''interview''" None "[]"] ids w show ?thesis by simp
qed

section \<open>Merging the applications of a company\<close>

lemma mergeOther_status:
  "status (mergeOther main b) = (if moreAdvanced (status b) (status main) then status b else status main)"
  by (simp add: mergeOther_def Let_def)

lemma mergeOther_history:
  "status_history (mergeOther main b)
     = (if moreAdvanced (status b) (status main) then status_history main @ status_history b
        else status_history main)"
  by (simp add: mergeOther_def Let_def)

lemma mergeOther_id: "app_id (mergeOther main b) = app_id main"
  by (simp add: mergeOther_def Let_def)

lemma entriesOrder_single: "entriesOrder [k, k] = [k]"
  by (simp add: entriesOrder_def Let_def)

lemma upt2: "[0 ..< Suc (Suc 0)] = [0, Suc 0]"
  by (simp add: upt_rec)

lemma dedup_pair:
  assumes ids: "app_id a \<noteq> app_id b"
    and key: "companyKey a = companyKey b"
    and ok: "companyKey a \<noteq> ''constructor''" "companyKey a \<noteq> ''__proto__''"
  shows "deduplicateApplications today (Some (t\<lparr>applications := [a, b]\<rparr>))
           = (Deduplicated,
              saveTracker today (t\<lparr>applications :=
                [if source b = ''company_site'' \<and> source a \<noteq> ''company_site''
                 then mergeOther b a else mergeOther a b]\<rparr>))"
proof (cases "source b = ''company_site'' \<and> source a \<noteq> ''company_site''")
  case True
  have g: "groupOf [a, b] (companyKey a) = [Suc 0, 0]"
    using key True by (simp add: groupOf_def Let_def upt2)
  have d: "duplicates [a, b] = [[Suc 0, 0]]"
    using key g by (simp add: duplicates_def entriesOrder_single)
  show ?thesis using ids key ok True
    by (simp add: deduplicateApplications_def d mergedMain_def Let_def findIndex_def mergeOther_id upt2)
next
  case False
  have g: "groupOf [a, b] (companyKey a) = [0, Suc 0]"
    using key False by (auto simp: groupOf_def Let_def upt2)
  have d: "duplicates [a, b] = [[0, Suc 0]]"
    using key g by (simp add: duplicates_def entriesOrder_single)
  show ?thesis using ids key ok False
    by (auto simp: deduplicateApplications_def d mergedMain_def Let_def findIndex_def mergeOther_id upt2)
qed

text \<open>
  C6, as the code has it. Let \<open>a\<close> and \<open>b\<close> be the two records of a tracker, with
  different ids and company names that are equal once lower-cased and trimmed (the dates
  of application and the job ids are not compared). The run leaves one record: the record
  \<open>main\<close> is \<open>b\<close> when only \<open>b\<close> is from the site of the company, else \<open>a\<close>, and the other
  record is merged into it. Its status is that of the other record when that one is
  strictly more advanced in \<^verbatim>\<open>statusOrder\<close>, else its own; its status history is the two
  histories joined in the first case, and its own history alone in the second.
\<close>

theorem dedup_two_records:
  assumes "app_id a \<noteq> app_id b"
    and "companyKey a = companyKey b"
    and "companyKey a \<noteq> ''constructor''" and "companyKey a \<noteq> ''__proto__''"
  shows "let main = (if source b = ''company_site'' \<and> source a \<noteq> ''company_site'' then b else a);
             dup = (if source b = ''company_site'' \<and> source a \<noteq> ''company_site'' then a else b)
         in deduplicateApplications today (Some (t\<lparr>applications := [a, b]\<rparr>))
              = (Deduplicated, saveTracker today (t\<lparr>applications := [mergeOther main dup]\<rparr>))
            \<and> status (mergeOther main dup)
                = (if moreAdvanced (status dup) (status main) then status dup else status main)
            \<and> status_history (mergeOther main dup)
                = (if moreAdvanced (status dup) (status main)
                   then status_history main @ status_history dup else status_history main)"
  using dedup_pair[OF assms, of today t]
  by (simp add: Let_def mergeOther_status mergeOther_history)

text \<open>
  The theorem at the two applications to Acme, made on 2026-02-01 and 2026-02-03, the
  second at the stage of an interview: one record is left, at the stage of an interview,
  with the three entries of the two histories.
\<close>

theorem dedup_two_records_witness:
  "app_id (newApplication ''2026-02-01'' ''app-1'' acme_site)
     \<noteq> app_id (updatedApp isoDayMs ''2026-02-08'' (newApplication ''2026-02-03'' ''app-2'' acme_linkedin) ''interview'' None [])
   \<and> companyKey (newApplication ''2026-02-01'' ''app-1'' acme_site)
     = companyKey (updatedApp isoDayMs ''2026-02-08'' (newApplication ''2026-02-03'' ''app-2'' acme_linkedin) ''interview'' None [])
   \<and> companyKey (newApplication ''2026-02-01'' ''app-1'' acme_site) \<noteq> ''constructor''
   \<and> companyKey (newApplication ''2026-02-01'' ''app-1'' acme_site) \<noteq> ''__proto__''
   \<and> map status (applications (the (snd (deduplicateApplications ''2026-02-12''
         (Some ((the sample_tracker)\<lparr>applications :=
            [newApplication ''2026-02-01'' ''app-1'' acme_site,
             updatedApp isoDayMs ''2026-02-08'' (newApplication ''2026-02-03'' ''app-2'' acme_linkedin) ''interview'' None []]\<rparr>))))))
       = [''interview'']
   \<and> map (map h_date \<circ> status_history) (applications (the (snd (deduplicateApplications ''2026-02-12''
         (Some ((the sample_tracker)\<lparr>applications :=
            [newApplication ''2026-02-01'' ''app-1'' acme_site,
             updatedApp isoDayMs ''2026-02-08'' (newApplication ''2026-02-03'' ''app-2'' acme_linkedin) ''interview'' None []]\<rparr>))))))
       = [[''2026-02-01'', ''2026-02-03'', ''2026-02-08'']]"
proof -
  let ?a = "newApplication ''2026-02-01'' ''app-1'' acme_site"
  let ?b = "updatedApp isoDayMs ''2026-02-08'' (newApplication ''2026-02-03'' ''app-2'' acme_linkedin) ''interview'' None []"
  have h1: "app_id ?a \<noteq> app_id ?b" by code_simp
  have h2: "companyKey ?a = companyKey ?b" by code_simp
  have h3: "companyKey ?a \<noteq> ''constructor''" by code_simp
  have h4: "companyKey ?a \<noteq> ''__proto__''" by code_simp
  have s: "\<not> (source ?b = ''company_site'' \<and> source ?a \<noteq> ''company_site'')" by code_simp
  have m: "moreAdvanced (status ?b) (status ?a)" by code_simp
  have sb: "status ?b = ''interview''" by code_simp
  have hd: "map h_date (status_history ?a @ status_history ?b) = [''2026-02-01'', ''2026-02-03'', ''2026-02-08'']"
    by code_simp
  from dedup_two_records[OF h1 h2 h3 h4, of "''2026-02-12''" "the sample_tracker"] s m sb hd h1 h2 h3 h4
  show ?thesis by (simp add: Let_def saveTracker_def)
qed

text \<open>
  C6 as stated fails on the history. The application through the site is at the stage of
  an interview on 2026-02-08; the LinkedIn application of 2026-02-03 is still
  \<^verbatim>\<open>applied\<close>. The record left has the status \<^verbatim>\<open>interview\<close>, and its history is that of
  the first application alone: the entry of 2026-02-03 is gone.
\<close>

theorem dedup_drops_history_of_duplicate:
  "map status (applications (the (snd (deduplicateApplications ''2026-02-12''
      (call isoDayMs sample_tracker (status_on ''2026-02-08'' ''app-1'' ''interview''))))))
     = [''interview'']
   \<and> map (map h_date \<circ> status_history) (applications (the (snd (deduplicateApplications ''2026-02-12''
      (call isoDayMs sample_tracker (status_on ''2026-02-08'' ''app-1'' ''interview''))))))
     = [[''2026-02-01'', ''2026-02-08'']]"
  by code_simp

text \<open>
  C7, as the code has it. When both statuses have a place in \<^verbatim>\<open>statusOrder\<close>
  (\<^verbatim>\<open>applied\<close> 0, \<^verbatim>\<open>responded\<close> 1, \<^verbatim>\<open>interview\<close> 2, \<^verbatim>\<open>offer\<close> 3, \<^verbatim>\<open>rejected\<close> 4), the
  merged status is the one with the higher place, so \<^verbatim>\<open>rejected\<close> on either record wins
  over the four others. A status without a place, as \<^verbatim>\<open>withdrawn\<close>, never wins when the
  record merged in has it, and is never replaced when the record \<open>main\<close> has it.
\<close>

theorem merged_status_rule:
  "(statusOrder (status main) = Some x \<and> statusOrder (status b) = Some y
      \<longrightarrow> statusOrder (status (mergeOther main b)) = Some (max x y))
   \<and> (statusOrder (status b) = None \<longrightarrow> status (mergeOther main b) = status main)
   \<and> (statusOrder (status main) = None \<longrightarrow> status (mergeOther main b) = status main)"
  by (auto simp: mergeOther_status moreAdvanced_def max_def split: option.splits)

text \<open>
  The theorem at three pairs: \<^verbatim>\<open>applied\<close> with \<^verbatim>\<open>rejected\<close> merged in, \<^verbatim>\<open>offer\<close> with
  \<^verbatim>\<open>withdrawn\<close> merged in, and \<^verbatim>\<open>withdrawn\<close> with \<^verbatim>\<open>rejected\<close> merged in.
\<close>

theorem merged_status_rule_witness:
  "statusOrder (status (newApplication ''2026-02-01'' ''app-1'' acme_site)) = Some 0
   \<and> statusOrder (status ((newApplication ''2026-02-03'' ''app-2'' acme_linkedin)\<lparr>status := ''rejected''\<rparr>)) = Some 4
   \<and> status (mergeOther (newApplication ''2026-02-01'' ''app-1'' acme_site)
               ((newApplication ''2026-02-03'' ''app-2'' acme_linkedin)\<lparr>status := ''rejected''\<rparr>)) = ''rejected''
   \<and> statusOrder (status ((newApplication ''2026-02-03'' ''app-2'' acme_linkedin)\<lparr>status := ''withdrawn''\<rparr>)) = None
   \<and> status (mergeOther ((newApplication ''2026-02-01'' ''app-1'' acme_site)\<lparr>status := ''offer''\<rparr>)
               ((newApplication ''2026-02-03'' ''app-2'' acme_linkedin)\<lparr>status := ''withdrawn''\<rparr>)) = ''offer''
   \<and> statusOrder (status ((newApplication ''2026-02-01'' ''app-1'' acme_site)\<lparr>status := ''withdrawn''\<rparr>)) = None
   \<and> status (mergeOther ((newApplication ''2026-02-01'' ''app-1'' acme_site)\<lparr>status := ''withdrawn''\<rparr>)
               ((newApplication ''2026-02-03'' ''app-2'' acme_linkedin)\<lparr>status := ''rejected''\<rparr>)) = ''withdrawn''"
proof -
  let ?a = "newApplication ''2026-02-01'' ''app-1'' acme_site"
  let ?b = "newApplication ''2026-02-03'' ''app-2'' acme_linkedin"
  have h1: "statusOrder (status ?a) = Some 0" by code_simp
  have h2: "statusOrder (status (?b\<lparr>status := ''rejected''\<rparr>)) = Some 4" by code_simp
  have h3: "statusOrder (status (?b\<lparr>status := ''withdrawn''\<rparr>)) = None" by code_simp
  have h4: "statusOrder (status (?a\<lparr>status := ''withdrawn''\<rparr>)) = None" by code_simp
  have r: "statusOrder s = Some 4 \<Longrightarrow> s = ''rejected''" for s
    by (auto simp: statusOrder_def split: if_splits)
  have c1: "statusOrder (status (mergeOther ?a (?b\<lparr>status := ''rejected''\<rparr>))) = Some (max 0 4)"
    using merged_status_rule[of ?a 0 "?b\<lparr>status := ''rejected''\<rparr>" 4] h1 h2 by blast
  have c2: "status (mergeOther (?a\<lparr>status := ''offer''\<rparr>) (?b\<lparr>status := ''withdrawn''\<rparr>))
              = status (?a\<lparr>status := ''offer''\<rparr>)"
    using merged_status_rule[of "?a\<lparr>status := ''offer''\<rparr>" 0 "?b\<lparr>status := ''withdrawn''\<rparr>" 0] h3 by blast
  have c3: "status (mergeOther (?a\<lparr>status := ''withdrawn''\<rparr>) (?b\<lparr>status := ''rejected''\<rparr>))
              = status (?a\<lparr>status := ''withdrawn''\<rparr>)"
    using merged_status_rule[of "?a\<lparr>status := ''withdrawn''\<rparr>" 0 "?b\<lparr>status := ''rejected''\<rparr>" 0] h4 by blast
  from c1 have "status (mergeOther ?a (?b\<lparr>status := ''rejected''\<rparr>)) = ''rejected''"
    by (intro r) simp
  with c2 c3 h1 h2 h3 h4 show ?thesis by simp
qed

text \<open>
  C7 as stated fails for \<^verbatim>\<open>withdrawn\<close>: the LinkedIn application to Acme was withdrawn,
  the application through the site is \<^verbatim>\<open>applied\<close>, and the record left by the
  deduplication is \<^verbatim>\<open>applied\<close>.
\<close>

theorem withdrawn_duplicate_does_not_win:
  "map status (applications (the (snd (deduplicateApplications ''2026-02-12''
      (call isoDayMs sample_tracker (status_on ''2026-02-08'' ''app-2'' ''withdrawn''))))))
     = [''applied'']"
  by code_simp


end
